theory Spec2Isabelle
  imports Main "HOL-Library.Word" "HOL-Library.Mapping" "HOL-Library.AList_Mapping"
begin

section \<open>Data model of the cache dictionary\<close>

text \<open>
  The embedding follows \<^verbatim>\<open>src/Dictionaries/CacheDictionary.cpp\<close>. A column is the list of
  its rows; \<^verbatim>\<open>Columns\<close> and \<^verbatim>\<open>MutableColumns\<close> are lists of columns. A \<^verbatim>\<open>HashMap<KeyType, size_t>\<close>
  is a finite mapping from keys to row numbers. \<^verbatim>\<open>size_t\<close>, \<^verbatim>\<open>UInt64\<close> and \<^verbatim>\<open>UInt8\<close> are machine
  words. A time point of \<^verbatim>\<open>std::chrono::system_clock\<close> is the count of its ticks since
  the epoch, a signed 64-bit integer: it is kept as an integer, and the arithmetic of the code
  on it is wrapped into the signed 64-bit range by \<open>int64\<close>.
\<close>

type_synonym 'v column = "'v list"
type_synonym 'v columns = "'v list list"
type_synonym size_t = "64 word"
type_synonym UInt64 = "64 word"
type_synonym UInt8 = "8 word"
type_synonym time_point = int

text \<open>
  Every \<^verbatim>\<open>throw\<close> of the file is a value of \<open>error\<close>. \<open>Update_failed\<close> and
  \<open>Update_suppressed_by_backoff\<close> are the two messages thrown with the code
  \<^verbatim>\<open>CACHE_DICTIONARY_UPDATE_FAIL\<close> by \<^verbatim>\<open>update\<close>: the first wraps the exception caught from the
  fetch, the second carries \<^verbatim>\<open>backoff_end_time\<close>. \<open>Source_exception\<close> is whatever the external
  source or its stream throws; \<open>POSITION_OUT_OF_BOUND\<close> and \<open>PARAMETER_OUT_OF_BOUND\<close> are thrown
  by \<^verbatim>\<open>Block::safeGetByPosition\<close> and \<^verbatim>\<open>IColumn::insertRangeFrom\<close>. \<open>Queue_full\<close> and
  \<open>Wait_timeout\<close> come from the update queue. \<open>Undefined_behaviour\<close> stands for an unchecked
  read outside an array, which C++ leaves undefined; no \<^verbatim>\<open>catch\<close> sees it.
\<close>

datatype error =
    Source_exception string
  | POSITION_OUT_OF_BOUND
  | PARAMETER_OUT_OF_BOUND
  | Update_failed error
  | Update_suppressed_by_backoff time_point
  | UNSUPPORTED_METHOD
  | TYPE_MISMATCH
  | Queue_full
  | Wait_timeout
  | Undefined_behaviour

datatype DictionaryKeyType = simple | complex

datatype AttributeUnderlyingType = utUInt64 | utOther

record 'v dictionary_attribute =
  name :: string
  underlying_type :: AttributeUnderlyingType
  null_value :: 'v
  hierarchical :: bool

text \<open>
  \<^verbatim>\<open>DictionaryStructure\<close>: the attributes in schema order; \<open>keys_size\<close> is what
  \<^verbatim>\<open>getKeysSize()\<close> returns, the number of leading key columns of a block of the source.
\<close>

record 'v dictionary_structure =
  attributes :: "'v dictionary_attribute list"
  keys_size :: nat

subsection \<open>Fetch request\<close>

text \<open>
  Modelled from the spec: \<^verbatim>\<open>DictionaryStorageFetchRequest\<close> is declared in a header that is
  not part of the sources. The spec (3, 4.B) makes it an immutable descriptor built from the
  full schema and the requested attribute names, exposing the attribute count, whether
  attribute \<open>i\<close> was requested, a factory of empty result columns of the full schema width,
  and a filter projecting a full-width result down to the requested subset in the caller's
  declared order.
\<close>

record fetch_request =
  schema_names :: "string list"
  requested_names :: "string list"

definition DictionaryStorageFetchRequest ::
  "'v dictionary_structure \<Rightarrow> string list \<Rightarrow> fetch_request" where
  "DictionaryStorageFetchRequest ds attribute_names =
     \<lparr>schema_names = map name (attributes ds), requested_names = attribute_names\<rparr>"

definition attributesSize :: "fetch_request \<Rightarrow> nat" where
  "attributesSize r = length (schema_names r)"

definition containsAttribute :: "fetch_request \<Rightarrow> string \<Rightarrow> bool" where
  "containsAttribute r n \<longleftrightarrow> n \<in> set (requested_names r)"

definition shouldFillResultColumnWithIndex :: "fetch_request \<Rightarrow> nat \<Rightarrow> bool" where
  "shouldFillResultColumnWithIndex r i \<longleftrightarrow>
     i < attributesSize r \<and> containsAttribute r (schema_names r ! i)"

definition makeAttributesResultColumns :: "fetch_request \<Rightarrow> 'v columns" where
  "makeAttributesResultColumns r = replicate (attributesSize r) []"

fun index_of :: "'a \<Rightarrow> 'a list \<Rightarrow> nat option" where
  "index_of x [] = None"
| "index_of x (y # ys) = (if x = y then Some 0 else map_option Suc (index_of x ys))"

definition filterRequestedColumns :: "fetch_request \<Rightarrow> 'v columns \<Rightarrow> error + 'v columns" where
  "filterRequestedColumns r cols =
     (if length cols \<noteq> attributesSize r then Inl Undefined_behaviour
      else Inr (List.map_filter
                  (\<lambda>n. map_option (\<lambda>i. cols ! i) (index_of n (schema_names r)))
                  (requested_names r)))"

subsection \<open>Columns\<close>

text \<open>
  \<^verbatim>\<open>IColumn::insertFrom(src, n)\<close> appends row \<open>n\<close> of \<open>src\<close>; the read is unchecked.
  \<^verbatim>\<open>IColumn::insertRangeFrom(src, start, length)\<close> throws when the range leaves \<open>src\<close>.
\<close>

definition insertFrom :: "'v column \<Rightarrow> 'v column \<Rightarrow> nat \<Rightarrow> error + 'v column" where
  "insertFrom dst src n =
     (if n < length src then Inr (dst @ [src ! n]) else Inl Undefined_behaviour)"

definition insertRangeFrom :: "'v column \<Rightarrow> 'v column \<Rightarrow> nat \<Rightarrow> nat \<Rightarrow> error + 'v column" where
  "insertRangeFrom dst src start len =
     (if start + len > length src then Inl PARAMETER_OUT_OF_BOUND
      else Inr (dst @ take len (drop start src)))"

text \<open>
  \<^verbatim>\<open>DefaultValueProvider\<close>: the attribute's null value, and the caller's column of defaults
  when there is one (\<^verbatim>\<open>nullptr\<close> is \<open>None\<close>).
\<close>

record 'v DefaultValueProvider =
  default_value :: 'v
  default_values_column :: "'v column option"

definition getDefaultValue :: "'v DefaultValueProvider \<Rightarrow> nat \<Rightarrow> error + 'v" where
  "getDefaultValue p row =
     (case default_values_column p of
        None \<Rightarrow> Inr (default_value p)
      | Some c \<Rightarrow> if row < length c then Inr (c ! row) else Inl Undefined_behaviour)"

subsection \<open>Fetch result and update unit\<close>

record ('k, 'v) FetchResult =
  fetched_columns :: "'v columns"
  found_keys_to_fetched_columns_index :: "('k, nat) mapping"
  expired_keys_to_fetched_columns_index :: "('k, nat) mapping"
  not_found_or_expired_keys :: "'k list"
  not_found_or_expired_keys_indexes :: "nat list"

record ('k, 'v) CacheDictionaryUpdateUnit =
  requested_simple_keys :: "'k list"
  requested_complex_key_columns :: "'v columns"
  requested_complex_key_rows :: "nat list"
  request :: fetch_request
  fetched_columns_during_update :: "'v columns"
  requested_keys_to_fetched_columns_during_update_index :: "('k, nat) mapping"

text \<open>
  Modelled from the spec: the two constructors of \<^verbatim>\<open>CacheDictionaryUpdateUnit\<close> are in a header
  that is not part of the sources. By the spec (3) a unit is born per query with the keys to
  refresh (by value for simple keys, by columns and row selector for complex ones), the fetch
  request, an output column vector that the worker populates and an empty index.
\<close>

definition update_unit_simple ::
  "'k list \<Rightarrow> fetch_request \<Rightarrow> ('k, 'v) CacheDictionaryUpdateUnit" where
  "update_unit_simple requested_simple_keys' request' =
     \<lparr>requested_simple_keys = requested_simple_keys',
      requested_complex_key_columns = [],
      requested_complex_key_rows = [],
      request = request',
      fetched_columns_during_update = makeAttributesResultColumns request',
      requested_keys_to_fetched_columns_during_update_index = Mapping.empty\<rparr>"

definition update_unit_complex ::
  "'v columns \<Rightarrow> nat list \<Rightarrow> fetch_request \<Rightarrow> ('k, 'v) CacheDictionaryUpdateUnit" where
  "update_unit_complex requested_complex_key_columns' requested_complex_key_rows' request' =
     \<lparr>requested_simple_keys = [],
      requested_complex_key_columns = requested_complex_key_columns',
      requested_complex_key_rows = requested_complex_key_rows',
      request = request',
      fetched_columns_during_update = makeAttributesResultColumns request',
      requested_keys_to_fetched_columns_during_update_index = Mapping.empty\<rparr>"

section \<open>Merging columns\<close>

text \<open>
  Both merge functions run \<^verbatim>\<open>for (fetch_request_index = 0; ... < request.attributesSize(); ...)\<close>
  over \<^verbatim>\<open>aggregated_columns\<close> and skip the attributes that were not requested;
  \<open>for_each_attribute\<close> is that loop, \<open>fill i c\<close> its body on column \<open>c\<close> at position \<open>i\<close>.
\<close>

fun for_each_attribute ::
  "fetch_request \<Rightarrow> (nat \<Rightarrow> 'v column \<Rightarrow> error + 'v column) \<Rightarrow> nat list \<Rightarrow> 'v columns
     \<Rightarrow> error + 'v columns" where
  "for_each_attribute r fill [] aggregated_columns = Inr aggregated_columns"
| "for_each_attribute r fill (i # is) aggregated_columns =
     (if \<not> shouldFillResultColumnWithIndex r i then for_each_attribute r fill is aggregated_columns
      else case fill i (aggregated_columns ! i) of
             Inl e \<Rightarrow> Inl e
           | Inr c \<Rightarrow> for_each_attribute r fill is (aggregated_columns[i := c]))"

text \<open>The loop \<^verbatim>\<open>for (auto key : keys)\<close> of \<^verbatim>\<open>aggregateColumnsInOrderOfKeys\<close>.\<close>

fun insert_in_order_of_keys ::
  "'v column \<Rightarrow> ('k, nat) mapping \<Rightarrow> ('k, nat) mapping \<Rightarrow> 'k list \<Rightarrow> 'v column
     \<Rightarrow> error + 'v column" where
  "insert_in_order_of_keys fetched_column found expired [] aggregated_column =
     Inr aggregated_column"
| "insert_in_order_of_keys fetched_column found expired (key # keys) aggregated_column =
     (case Mapping.lookup expired key of
        Some row \<Rightarrow>
          (case insertFrom aggregated_column fetched_column row of
             Inl e \<Rightarrow> Inl e
           | Inr c \<Rightarrow> insert_in_order_of_keys fetched_column found expired keys c)
      | None \<Rightarrow>
          (case Mapping.lookup found key of
             Some row \<Rightarrow>
               (case insertFrom aggregated_column fetched_column row of
                  Inl e \<Rightarrow> Inl e
                | Inr c \<Rightarrow> insert_in_order_of_keys fetched_column found expired keys c)
           | None \<Rightarrow> insert_in_order_of_keys fetched_column found expired keys aggregated_column))"

definition aggregateColumnsInOrderOfKeys ::
  "'k list \<Rightarrow> fetch_request \<Rightarrow> 'v columns \<Rightarrow> ('k, nat) mapping \<Rightarrow> ('k, nat) mapping
     \<Rightarrow> error + 'v columns" where
  "aggregateColumnsInOrderOfKeys keys r fetched_columns'
       found_keys_to_fetched_columns_index' expired_keys_to_fetched_columns_index' =
     for_each_attribute r
       (\<lambda>fetch_request_index aggregated_column.
          if fetch_request_index < length fetched_columns'
          then insert_in_order_of_keys (fetched_columns' ! fetch_request_index)
                 found_keys_to_fetched_columns_index' expired_keys_to_fetched_columns_index'
                 keys aggregated_column
          else Inl Undefined_behaviour)
       [0 ..< attributesSize r] (makeAttributesResultColumns r)"

text \<open>
  The loop \<^verbatim>\<open>for (key_index = 0; key_index < keys.size(); ++key_index)\<close> of
  \<^verbatim>\<open>aggregateColumns\<close>; \<open>key_index\<close> is the position of the head of the remaining keys.
\<close>

fun insert_merged ::
  "'v column \<Rightarrow> ('k, nat) mapping \<Rightarrow> 'v column \<Rightarrow> ('k, nat) mapping \<Rightarrow> 'v DefaultValueProvider
     \<Rightarrow> 'k list \<Rightarrow> nat \<Rightarrow> 'v column \<Rightarrow> error + 'v column" where
  "insert_merged from_storage in_cache during_update in_update provider [] key_index
       aggregated_column = Inr aggregated_column"
| "insert_merged from_storage in_cache during_update in_update provider (key # keys) key_index
       aggregated_column =
     (case Mapping.lookup in_cache key of
        Some row \<Rightarrow>
          (case insertFrom aggregated_column from_storage row of
             Inl e \<Rightarrow> Inl e
           | Inr c \<Rightarrow> insert_merged from_storage in_cache during_update in_update provider
                       keys (Suc key_index) c)
      | None \<Rightarrow>
          (case Mapping.lookup in_update key of
             Some row \<Rightarrow>
               (case insertFrom aggregated_column during_update row of
                  Inl e \<Rightarrow> Inl e
                | Inr c \<Rightarrow> insert_merged from_storage in_cache during_update in_update provider
                            keys (Suc key_index) c)
           | None \<Rightarrow>
               (case getDefaultValue provider key_index of
                  Inl e \<Rightarrow> Inl e
                | Inr v \<Rightarrow> insert_merged from_storage in_cache during_update in_update provider
                            keys (Suc key_index) (aggregated_column @ [v]))))"

definition aggregateColumns ::
  "'k list \<Rightarrow> fetch_request \<Rightarrow> 'v columns \<Rightarrow> ('k, nat) mapping \<Rightarrow> 'v columns
     \<Rightarrow> ('k, nat) mapping \<Rightarrow> 'v DefaultValueProvider list \<Rightarrow> error + 'v columns" where
  "aggregateColumns keys r fetched_columns_from_storage
       found_keys_to_fetched_columns_from_storage_index fetched_columns_during_update'
       found_keys_to_fetched_columns_during_update_index default_value_providers =
     for_each_attribute r
       (\<lambda>fetch_request_index aggregated_column.
          if fetch_request_index < length fetched_columns_from_storage
             \<and> fetch_request_index < length fetched_columns_during_update'
             \<and> fetch_request_index < length default_value_providers
          then insert_merged (fetched_columns_from_storage ! fetch_request_index)
                 found_keys_to_fetched_columns_from_storage_index
                 (fetched_columns_during_update' ! fetch_request_index)
                 found_keys_to_fetched_columns_during_update_index
                 (default_value_providers ! fetch_request_index) keys 0 aggregated_column
          else Inl Undefined_behaviour)
       [0 ..< attributesSize r] (makeAttributesResultColumns r)"

section \<open>Collaborators and state\<close>

text \<open>
  The storage, the external source, the key extractor, the update queue, the backoff duration
  and the clock are declared outside \<^verbatim>\<open>CacheDictionary.cpp\<close>; they are parameters of the model.
  \<open>'s\<close> is the state of the storage, \<open>'r\<close> the state of the random engine.
  \<^item> \<open>extractKeys\<close> is \<^verbatim>\<open>DictionaryKeysExtractor::getKeys\<close> on key columns.
  \<^item> \<open>fetchColumnsForKeys\<close>, \<open>insertColumnsForKeys\<close> and
    \<open>returnsFetchedColumnsInOrderOfRequestedKeys\<close> are the storage's operations.
  \<^item> \<open>loadIds\<close> and \<open>loadKeys\<close> give the stream of the source as the list of what each
    \<^verbatim>\<open>read()\<close> yields: a block (its columns, keys first) or a thrown exception. An
    exception of \<^verbatim>\<open>getSourceAndUpdateIfNeeded\<close>, of the load call or of \<^verbatim>\<open>readPrefix\<close> is an
    exception at the head of the list, one of \<^verbatim>\<open>readSuffix\<close> is one at its end.
  \<^item> \<open>calculateDurationWithBackoff\<close> draws the backoff duration in seconds, a \<^verbatim>\<open>UInt64\<close>.
  \<^item> \<open>system_clock_now\<close> is what \<^verbatim>\<open>std::chrono::system_clock::now()\<close> returns in the worker
    and \<open>ticks_per_second\<close> the number of clock ticks in a second.
  \<^item> \<open>queue_has_space\<close> says whether a push finds room in the update queue before its
    timeout, \<open>update_finishes_in_time\<close> whether the unit is finished before the waiter's.
  \<^item> \<open>DBMS_HIERARCHICAL_DICTIONARY_MAX_DEPTH\<close> is the macro of that name.
\<close>

record ('k, 'v, 's, 'r) collaborators =
  extractKeys :: "'v columns \<Rightarrow> 'k list"
  fetchColumnsForKeys :: "'s \<Rightarrow> 'k list \<Rightarrow> fetch_request \<Rightarrow> ('k, 'v) FetchResult \<times> 's"
  insertColumnsForKeys :: "'s \<Rightarrow> 'k list \<Rightarrow> 'v columns \<Rightarrow> 's"
  returnsFetchedColumnsInOrderOfRequestedKeys :: bool
  loadIds :: "'k list \<Rightarrow> (error + 'v columns) list"
  loadKeys :: "'v columns \<Rightarrow> nat list \<Rightarrow> (error + 'v columns) list"
  calculateDurationWithBackoff :: "'r \<Rightarrow> size_t \<Rightarrow> UInt64 \<times> 'r"
  system_clock_now :: time_point
  ticks_per_second :: int
  queue_has_space :: bool
  update_finishes_in_time :: bool
  DBMS_HIERARCHICAL_DICTIONARY_MAX_DEPTH :: nat

text \<open>The members of \<^verbatim>\<open>CacheDictionary\<close> fixed at construction.\<close>

record 'v CacheDictionary =
  dictionary_key_type :: DictionaryKeyType
  dict_struct :: "'v dictionary_structure"
  allow_read_expired_keys :: bool
  hierarchical_attribute :: "'v dictionary_attribute option"

text \<open>The mutable members: the storage and the backoff state.\<close>

record ('s, 'r) state =
  storage :: 's
  error_count :: size_t
  last_exception :: "error option"
  backoff_end_time :: time_point
  rnd_engine :: 'r

text \<open>
  The arithmetic of \<^verbatim>\<open>now + std::chrono::seconds(n)\<close>. \<open>int64\<close> wraps an integer into the
  signed 64-bit range, as two's complement arithmetic does. \<^verbatim>\<open>std::chrono::seconds(n)\<close>
  converts the \<^verbatim>\<open>UInt64\<close> to the signed 64-bit count of the duration, which the addition to
  a time point converts to clock ticks; \<open>plus_duration\<close> is the \<^verbatim>\<open>operator+\<close> of a time
  point and a duration in ticks. An overflow of the signed multiplication or addition, which
  C++ leaves undefined, is taken as the wrap-around of the machine's 64-bit arithmetic.
\<close>

definition int64 :: "int \<Rightarrow> int" where
  "int64 k = signed_take_bit 63 k"

definition seconds :: "('k, 'v, 's, 'r) collaborators \<Rightarrow> UInt64 \<Rightarrow> int" where
  "seconds env n = int64 (sint n * ticks_per_second env)"

definition plus_duration :: "time_point \<Rightarrow> int \<Rightarrow> time_point" where
  "plus_duration t ticks = int64 (t + ticks)"

section \<open>The worker's update\<close>

text \<open>
  The loop over \<^verbatim>\<open>index_of_attribute\<close>: the requested attribute columns of the block are
  appended to the unit's columns. The columns are mutated in place, so what was appended
  before an exception stays.
\<close>

fun insert_block_columns ::
  "fetch_request \<Rightarrow> 'v columns \<Rightarrow> nat \<Rightarrow> nat \<Rightarrow> nat list \<Rightarrow> 'v columns
     \<Rightarrow> error option \<times> 'v columns" where
  "insert_block_columns r block skip_keys_size_offset keys_size' [] cols = (None, cols)"
| "insert_block_columns r block skip_keys_size_offset keys_size' (index_of_attribute # is) cols =
     (if shouldFillResultColumnWithIndex r index_of_attribute then
        (if skip_keys_size_offset + index_of_attribute < length block then
           (case insertRangeFrom (cols ! index_of_attribute)
                   (block ! (skip_keys_size_offset + index_of_attribute)) 0 keys_size' of
              Inl e \<Rightarrow> (Some e, cols)
            | Inr c \<Rightarrow> insert_block_columns r block skip_keys_size_offset keys_size' is
                         (cols[index_of_attribute := c]))
         else (Some POSITION_OUT_OF_BOUND, cols))
      else insert_block_columns r block skip_keys_size_offset keys_size' is cols)"

text \<open>
  The loop \<^verbatim>\<open>for (i = 0; i < keys.size(); ++i)\<close> that records
  \<^verbatim>\<open>index[keys[i]] = found_num + i\<close>; \<open>row\<close> is \<open>found_num + i\<close> for the head of the list.
\<close>

fun index_fetched_keys :: "'k list \<Rightarrow> nat \<Rightarrow> ('k, nat) mapping \<Rightarrow> ('k, nat) mapping" where
  "index_fetched_keys [] row index = index"
| "index_fetched_keys (fetched_key_from_source # keys) row index =
     index_fetched_keys keys (Suc row) (Mapping.update fetched_key_from_source row index)"

text \<open>
  The loop \<^verbatim>\<open>while (Block block = stream->read())\<close>. A block without columns converts to
  \<^verbatim>\<open>false\<close> and ends the loop. Removing the key columns from a block that has fewer columns
  than \<^verbatim>\<open>getKeysSize()\<close> dereferences \<^verbatim>\<open>begin()\<close> of an empty vector.
\<close>

fun read_stream ::
  "('k, 'v, 's, 'r) collaborators \<Rightarrow> 'v CacheDictionary \<Rightarrow> (error + 'v columns) list
     \<Rightarrow> ('k, 'v) CacheDictionaryUpdateUnit \<Rightarrow> ('s, 'r) state \<Rightarrow> nat
     \<Rightarrow> error option \<times> ('k, 'v) CacheDictionaryUpdateUnit \<times> ('s, 'r) state" where
  "read_stream env d [] update_unit st found_num = (None, update_unit, st)"
| "read_stream env d (Inl e # stream) update_unit st found_num = (Some e, update_unit, st)"
| "read_stream env d (Inr block # stream) update_unit st found_num =
     (if block = [] then (None, update_unit, st)
      else
        let skip_keys_size_offset = keys_size (dict_struct d) in
        if length block < skip_keys_size_offset then (Some Undefined_behaviour, update_unit, st)
        else
          let key_columns = take skip_keys_size_offset block;
              block_columns = drop skip_keys_size_offset block;
              keys = extractKeys env key_columns;
              st' = st\<lparr>storage := insertColumnsForKeys env (storage st) keys block_columns\<rparr>
          in case insert_block_columns (request update_unit) block skip_keys_size_offset
                    (length keys) [0 ..< length (fetched_columns_during_update update_unit)]
                    (fetched_columns_during_update update_unit) of
               (Some e, cols) \<Rightarrow>
                 (Some e, update_unit\<lparr>fetched_columns_during_update := cols\<rparr>, st')
             | (None, cols) \<Rightarrow>
                 read_stream env d stream
                   (update_unit
                      \<lparr>fetched_columns_during_update := cols,
                       requested_keys_to_fetched_columns_during_update_index :=
                         index_fetched_keys keys found_num
                           (requested_keys_to_fetched_columns_during_update_index update_unit)\<rparr>)
                   st' (found_num + length keys))"

text \<open>
  The stream that \<^verbatim>\<open>update\<close> asks the source for: \<^verbatim>\<open>loadIds\<close> on the requested keys of a
  simple dictionary, \<^verbatim>\<open>loadKeys\<close> on the requested columns and rows of a complex one.
\<close>

definition source_stream ::
  "('k, 'v, 's, 'r) collaborators \<Rightarrow> 'v CacheDictionary \<Rightarrow> ('k, 'v) CacheDictionaryUpdateUnit
     \<Rightarrow> (error + 'v columns) list" where
  "source_stream env d update_unit =
     (case dictionary_key_type d of
        simple \<Rightarrow> loadIds env (requested_simple_keys update_unit)
      | complex \<Rightarrow> loadKeys env (requested_complex_key_columns update_unit)
                     (requested_complex_key_rows update_unit))"

text \<open>
  \<^verbatim>\<open>CacheDictionary::update\<close>. The result is the exception that leaves the function, if any,
  with the unit and the state as the call leaves them. \<^verbatim>\<open>catch (...)\<close> handles every
  exception of the fetch.
\<close>

definition update ::
  "('k, 'v, 's, 'r) collaborators \<Rightarrow> 'v CacheDictionary \<Rightarrow> ('s, 'r) state
     \<Rightarrow> ('k, 'v) CacheDictionaryUpdateUnit
     \<Rightarrow> error option \<times> ('k, 'v) CacheDictionaryUpdateUnit \<times> ('s, 'r) state" where
  "update env d st update_unit =
     (let now = system_clock_now env in
      if now > backoff_end_time st then
        (case read_stream env d (source_stream env d update_unit) update_unit st 0 of
           (None, update_unit', st') \<Rightarrow>
             (None, update_unit',
              st'\<lparr>error_count := 0, last_exception := None, backoff_end_time := 0\<rparr>)
         | (Some e, update_unit', st') \<Rightarrow>
             if e = Undefined_behaviour then (Some Undefined_behaviour, update_unit', st')
             else
               (let error_count' = error_count st' + 1;
                    (duration, rnd_engine') =
                       calculateDurationWithBackoff env (rnd_engine st') error_count'
                in (Some (Update_failed e), update_unit',
                    st'\<lparr>error_count := error_count',
                        last_exception := Some e,
                        backoff_end_time := plus_duration now (seconds env duration),
                        rnd_engine := rnd_engine'\<rparr>)))
      else (Some (Update_suppressed_by_backoff (backoff_end_time st)), update_unit, st))"

section \<open>The update queue\<close>

text \<open>
  Modelled from the spec: \<^verbatim>\<open>CacheDictionaryUpdateQueue\<close> is not part of the sources. By the
  spec (4.D) a push enqueues the unit when there is space and fails with queue-full
  otherwise; a worker then runs \<^verbatim>\<open>update\<close> on the unit; waiting blocks until the unit is
  finished or the timeout elapses, fails with wait-timeout in the second case and re-raises
  the unit's error when it finished with one. The model is sequential: the worker runs when
  the unit is pushed.
\<close>

definition tryPushToUpdateQueueOrThrow ::
  "('k, 'v, 's, 'r) collaborators \<Rightarrow> 'v CacheDictionary \<Rightarrow> ('s, 'r) state
     \<Rightarrow> ('k, 'v) CacheDictionaryUpdateUnit
     \<Rightarrow> error + (error option \<times> ('k, 'v) CacheDictionaryUpdateUnit \<times> ('s, 'r) state)" where
  "tryPushToUpdateQueueOrThrow env d st update_unit =
     (if queue_has_space env then Inr (update env d st update_unit) else Inl Queue_full)"

definition waitForCurrentUpdateFinish ::
  "('k, 'v, 's, 'r) collaborators \<Rightarrow> error option \<Rightarrow> error option" where
  "waitForCurrentUpdateFinish env finished =
     (if update_finishes_in_time env then finished else Some Wait_timeout)"

section \<open>The query pipeline\<close>

text \<open>
  The loop of \<^verbatim>\<open>getColumnsImpl\<close> over \<^verbatim>\<open>dict_struct.attributes\<close> that builds
  \<^verbatim>\<open>default_value_providers\<close>; \<^verbatim>\<open>default_values_columns[default_values_column_index]\<close> is an
  unchecked read.
\<close>

fun make_default_value_providers ::
  "fetch_request \<Rightarrow> 'v dictionary_attribute list \<Rightarrow> 'v column option list \<Rightarrow> nat
     \<Rightarrow> 'v DefaultValueProvider list \<Rightarrow> error + 'v DefaultValueProvider list" where
  "make_default_value_providers r [] default_values_columns default_values_column_index
       default_value_providers = Inr default_value_providers"
| "make_default_value_providers r (dictionary_attribute # attrs) default_values_columns
       default_values_column_index default_value_providers =
     (if containsAttribute r (name dictionary_attribute) then
        (if default_values_column_index < length default_values_columns then
           make_default_value_providers r attrs default_values_columns
             (Suc default_values_column_index)
             (default_value_providers @
                [\<lparr>default_value = null_value dictionary_attribute,
                  default_values_column = default_values_columns ! default_values_column_index\<rparr>])
         else Inl Undefined_behaviour)
      else
        make_default_value_providers r attrs default_values_columns default_values_column_index
          (default_value_providers @
             [\<lparr>default_value = null_value dictionary_attribute, default_values_column = None\<rparr>]))"

text \<open>
  What both branches that answer from the storage return: the fetched columns as they are
  when the storage returns them in the order of the keys, reordered otherwise.
\<close>

definition columns_from_storage ::
  "('k, 'v, 's, 'r) collaborators \<Rightarrow> 'k list \<Rightarrow> fetch_request \<Rightarrow> ('k, 'v) FetchResult
     \<Rightarrow> error + 'v columns" where
  "columns_from_storage env keys r result_of_fetch_from_storage =
     (if returnsFetchedColumnsInOrderOfRequestedKeys env
      then filterRequestedColumns r (fetched_columns result_of_fetch_from_storage)
      else case aggregateColumnsInOrderOfKeys keys r
                  (fetched_columns result_of_fetch_from_storage)
                  (found_keys_to_fetched_columns_index result_of_fetch_from_storage)
                  (expired_keys_to_fetched_columns_index result_of_fetch_from_storage) of
             Inl e \<Rightarrow> Inl e
           | Inr aggregated_columns \<Rightarrow> filterRequestedColumns r aggregated_columns)"

text \<open>The unit a query builds from the keys that the storage did not find fresh.\<close>

definition make_update_unit ::
  "'v CacheDictionary \<Rightarrow> 'v columns \<Rightarrow> ('k, 'v) FetchResult \<Rightarrow> fetch_request
     \<Rightarrow> ('k, 'v) CacheDictionaryUpdateUnit" where
  "make_update_unit d key_columns result_of_fetch_from_storage r =
     (case dictionary_key_type d of
        simple \<Rightarrow> update_unit_simple (not_found_or_expired_keys result_of_fetch_from_storage) r
      | complex \<Rightarrow> update_unit_complex key_columns
                     (not_found_or_expired_keys_indexes result_of_fetch_from_storage) r)"

text \<open>The three sizes that \<^verbatim>\<open>getColumnsImpl\<close> and \<^verbatim>\<open>hasKeys\<close> compute, in \<^verbatim>\<open>size_t\<close>.\<close>

definition expired_keys_size :: "('k, 'v) FetchResult \<Rightarrow> size_t" where
  "expired_keys_size fr = of_nat (Mapping.size (expired_keys_to_fetched_columns_index fr))"

definition found_keys_size :: "('k, 'v) FetchResult \<Rightarrow> size_t" where
  "found_keys_size fr = of_nat (Mapping.size (found_keys_to_fetched_columns_index fr))"

definition not_found_keys_size :: "'k list \<Rightarrow> ('k, 'v) FetchResult \<Rightarrow> size_t" where
  "not_found_keys_size keys fr =
     of_nat (length keys) - (expired_keys_size fr + found_keys_size fr)"

definition getColumnsImpl ::
  "('k, 'v, 's, 'r) collaborators \<Rightarrow> 'v CacheDictionary \<Rightarrow> ('s, 'r) state \<Rightarrow> string list
     \<Rightarrow> 'v columns \<Rightarrow> 'k list \<Rightarrow> 'v column option list
     \<Rightarrow> (error + 'v columns) \<times> ('s, 'r) state" where
  "getColumnsImpl env d st attribute_names key_columns keys default_values_columns =
     (let r = DictionaryStorageFetchRequest (dict_struct d) attribute_names;
          (result_of_fetch_from_storage, storage') = fetchColumnsForKeys env (storage st) keys r;
          st = st\<lparr>storage := storage'\<rparr>;
          update_unit = make_update_unit d key_columns result_of_fetch_from_storage r
      in
      if not_found_keys_size keys result_of_fetch_from_storage = 0
         \<and> expired_keys_size result_of_fetch_from_storage = 0
      then (columns_from_storage env keys r result_of_fetch_from_storage, st)
      else if not_found_keys_size keys result_of_fetch_from_storage = 0
         \<and> expired_keys_size result_of_fetch_from_storage > 0 \<and> allow_read_expired_keys d
      then
        (case tryPushToUpdateQueueOrThrow env d st update_unit of
           Inl e \<Rightarrow> (Inl e, st)
         | Inr (finished, update_unit', st') \<Rightarrow>
             (columns_from_storage env keys r result_of_fetch_from_storage, st'))
      else
        (case tryPushToUpdateQueueOrThrow env d st update_unit of
           Inl e \<Rightarrow> (Inl e, st)
         | Inr (finished, update_unit', st') \<Rightarrow>
             (case waitForCurrentUpdateFinish env finished of
                Some e \<Rightarrow> (Inl e, st')
              | None \<Rightarrow>
                  (case make_default_value_providers r (attributes (dict_struct d))
                          default_values_columns 0 [] of
                     Inl e \<Rightarrow> (Inl e, st')
                   | Inr default_value_providers \<Rightarrow>
                       (case aggregateColumns keys r
                               (fetched_columns result_of_fetch_from_storage)
                               (found_keys_to_fetched_columns_index result_of_fetch_from_storage)
                               (fetched_columns_during_update update_unit')
                               (requested_keys_to_fetched_columns_during_update_index update_unit')
                               default_value_providers of
                          Inl e \<Rightarrow> (Inl e, st')
                        | Inr aggregated_columns \<Rightarrow>
                            (filterRequestedColumns r aggregated_columns, st'))))))"

text \<open>
  \<^verbatim>\<open>getColumns\<close> ignores the result types and the key types; \<^verbatim>\<open>getColumn\<close> takes
  \<^verbatim>\<open>front()\<close> of what \<^verbatim>\<open>getColumns\<close> returns, which is unchecked on an empty vector.
\<close>

definition getColumns ::
  "('k, 'v, 's, 'r) collaborators \<Rightarrow> 'v CacheDictionary \<Rightarrow> ('s, 'r) state \<Rightarrow> string list
     \<Rightarrow> 't list \<Rightarrow> 'v columns \<Rightarrow> 't list \<Rightarrow> 'v column option list
     \<Rightarrow> (error + 'v columns) \<times> ('s, 'r) state" where
  "getColumns env d st attribute_names result_types key_columns key_types
       default_values_columns =
     (let keys = extractKeys env key_columns
      in getColumnsImpl env d st attribute_names key_columns keys default_values_columns)"

definition front :: "'a list \<Rightarrow> error + 'a" where
  "front xs = (case xs of [] \<Rightarrow> Inl Undefined_behaviour | x # _ \<Rightarrow> Inr x)"

definition getColumn ::
  "('k, 'v, 's, 'r) collaborators \<Rightarrow> 'v CacheDictionary \<Rightarrow> ('s, 'r) state \<Rightarrow> string
     \<Rightarrow> 't \<Rightarrow> 'v columns \<Rightarrow> 't list \<Rightarrow> 'v column option
     \<Rightarrow> (error + 'v column) \<times> ('s, 'r) state" where
  "getColumn env d st attribute_name result_type key_columns key_types default_values_column' =
     (case getColumns env d st [attribute_name] [result_type] key_columns key_types
             [default_values_column'] of
        (Inl e, st') \<Rightarrow> (Inl e, st')
      | (Inr cols, st') \<Rightarrow> (front cols, st'))"

text \<open>The last loop of \<^verbatim>\<open>hasKeys\<close>, over \<^verbatim>\<open>key_index\<close>.\<close>

definition has_key :: "('k, nat) mapping \<Rightarrow> ('k, nat) mapping \<Rightarrow> 'k \<Rightarrow> UInt8" where
  "has_key found in_update key =
     (if Mapping.lookup found key \<noteq> None then 1
      else if Mapping.lookup in_update key \<noteq> None then 1
      else 0)"

definition hasKeys ::
  "('k, 'v, 's, 'r) collaborators \<Rightarrow> 'v CacheDictionary \<Rightarrow> ('s, 'r) state \<Rightarrow> 'v columns
     \<Rightarrow> 't list \<Rightarrow> (error + UInt8 column) \<times> ('s, 'r) state" where
  "hasKeys env d st key_columns key_types =
     (let keys = extractKeys env key_columns;
          r = DictionaryStorageFetchRequest (dict_struct d) [];
          (result_of_fetch_from_storage, storage') = fetchColumnsForKeys env (storage st) keys r;
          st = st\<lparr>storage := storage'\<rparr>;
          update_unit = make_update_unit d key_columns result_of_fetch_from_storage r
      in
      if not_found_keys_size keys result_of_fetch_from_storage = 0
         \<and> expired_keys_size result_of_fetch_from_storage = 0
      then (Inr (replicate (length keys) 1), st)
      else if not_found_keys_size keys result_of_fetch_from_storage = 0
         \<and> expired_keys_size result_of_fetch_from_storage > 0 \<and> allow_read_expired_keys d
      then
        (case tryPushToUpdateQueueOrThrow env d st update_unit of
           Inl e \<Rightarrow> (Inl e, st)
         | Inr (finished, update_unit', st') \<Rightarrow> (Inr (replicate (length keys) 1), st'))
      else if not_found_keys_size keys result_of_fetch_from_storage > 0
      then
        (case tryPushToUpdateQueueOrThrow env d st update_unit of
           Inl e \<Rightarrow> (Inl e, st)
         | Inr (finished, update_unit', st') \<Rightarrow>
             (case waitForCurrentUpdateFinish env finished of
                Some e \<Rightarrow> (Inl e, st')
              | None \<Rightarrow>
                  (Inr (map (has_key
                               (found_keys_to_fetched_columns_index result_of_fetch_from_storage)
                               (requested_keys_to_fetched_columns_during_update_index update_unit'))
                          keys),
                   st')))
      else
        (Inr (map (has_key (found_keys_to_fetched_columns_index result_of_fetch_from_storage)
                     Mapping.empty)
                keys),
         st))"

section \<open>Hierarchy\<close>

text \<open>
  \<^verbatim>\<open>setupHierarchicalAttribute\<close> sets the member \<^verbatim>\<open>hierarchical_attribute\<close> in the constructor:
  the loop over the attributes, started with the null pointer \<open>None\<close>.
\<close>

fun setupHierarchicalAttribute ::
  "'v dictionary_attribute list \<Rightarrow> 'v dictionary_attribute option
     \<Rightarrow> error + 'v dictionary_attribute option" where
  "setupHierarchicalAttribute [] hierarchical_attribute' = Inr hierarchical_attribute'"
| "setupHierarchicalAttribute (attribute # attrs) hierarchical_attribute' =
     (if hierarchical attribute then
        (if underlying_type attribute \<noteq> utUInt64 then Inl TYPE_MISMATCH
         else setupHierarchicalAttribute attrs (Some attribute))
      else setupHierarchicalAttribute attrs hierarchical_attribute')"

text \<open>
  \<^verbatim>\<open>toParent\<close> on a dictionary of simple keys, whose keys and hierarchical attribute are
  \<^verbatim>\<open>UInt64\<close>. The key columns passed to \<^verbatim>\<open>getColumnsImpl\<close> are one empty column, the default
  column is the null pointer.
\<close>

definition toParent ::
  "(UInt64, UInt64, 's, 'r) collaborators \<Rightarrow> UInt64 CacheDictionary \<Rightarrow> ('s, 'r) state
     \<Rightarrow> UInt64 list \<Rightarrow> (error + UInt64 list) \<times> ('s, 'r) state" where
  "toParent env d st ids =
     (case dictionary_key_type d of
        simple \<Rightarrow>
          (case hierarchical_attribute d of
             None \<Rightarrow> (Inl Undefined_behaviour, st)
           | Some attribute \<Rightarrow>
               (case getColumnsImpl env d st [name attribute] [[]] ids [None] of
                  (Inl e, st') \<Rightarrow> (Inl e, st')
                | (Inr cols, st') \<Rightarrow> (front cols, st')))
      | complex \<Rightarrow> (Inl UNSUPPORTED_METHOD, st))"

text \<open>\<^verbatim>\<open>AncestorType\<close> is an array of ancestors or one ancestor; \<^verbatim>\<open>getAt\<close> reads either.\<close>

datatype AncestorType = Vector "UInt64 list" | Constant UInt64

fun getAt :: "AncestorType \<Rightarrow> nat \<Rightarrow> error + UInt64" where
  "getAt (Vector arr) idx = (if idx < length arr then Inr (arr ! idx) else Inl Undefined_behaviour)"
| "getAt (Constant v) idx = Inr v"

text \<open>
  The inner loop \<^verbatim>\<open>while (out_idx < out_size)\<close> of \<^verbatim>\<open>isInImpl\<close>. It returns \<open>out\<close>,
  \<open>children\<close> and \<open>new_children_idx\<close> as the loop leaves them.
\<close>

function isIn_pass ::
  "UInt64 \<Rightarrow> AncestorType \<Rightarrow> UInt64 list \<Rightarrow> UInt8 list \<Rightarrow> UInt64 list \<Rightarrow> nat \<Rightarrow> nat \<Rightarrow> nat
     \<Rightarrow> error + (UInt8 list \<times> UInt64 list \<times> nat)" where
  "isIn_pass null_value' ancestor_ids parents out children out_idx parents_idx new_children_idx =
     (if out_idx < length out then
        (if out ! out_idx \<noteq> 0xFF then
           isIn_pass null_value' ancestor_ids parents out children
             (Suc out_idx) parents_idx new_children_idx
         else if \<not> parents_idx < length parents then Inl Undefined_behaviour
         else if parents ! parents_idx = null_value' then
           isIn_pass null_value' ancestor_ids parents (out[out_idx := 0]) children
             (Suc out_idx) (Suc parents_idx) new_children_idx
         else
           (case getAt ancestor_ids parents_idx of
              Inl e \<Rightarrow> Inl e
            | Inr ancestor \<Rightarrow>
                if parents ! parents_idx = ancestor then
                  isIn_pass null_value' ancestor_ids parents (out[out_idx := 1]) children
                    (Suc out_idx) (Suc parents_idx) new_children_idx
                else if \<not> new_children_idx < length children then Inl Undefined_behaviour
                else if children ! new_children_idx = parents ! parents_idx then
                  isIn_pass null_value' ancestor_ids parents (out[out_idx := 1]) children
                    (Suc out_idx) (Suc parents_idx) new_children_idx
                else
                  isIn_pass null_value' ancestor_ids parents out
                    (children[new_children_idx := parents ! parents_idx])
                    (Suc out_idx) (Suc parents_idx) (Suc new_children_idx)))
      else Inr (out, children, new_children_idx))"
  by pat_completeness auto
termination
  by (relation "measure (\<lambda>(n, a, p, out, c, out_idx, p_idx, c_idx). length out - out_idx)") auto

declare isIn_pass.simps [simp del]

text \<open>
  The outer loop \<^verbatim>\<open>for (i = 0; i < DBMS_HIERARCHICAL_DICTIONARY_MAX_DEPTH; ++i)\<close>; the first
  argument after the parameters counts the iterations that remain. \<open>to_parent\<close> is
  \<^verbatim>\<open>toParent\<close>, which assigns the column it got to \<open>parents\<close>.
\<close>

fun isIn_loop ::
  "('w \<Rightarrow> UInt64 list \<Rightarrow> (error + UInt64 list) \<times> 'w) \<Rightarrow> UInt64 \<Rightarrow> AncestorType \<Rightarrow> nat
     \<Rightarrow> UInt8 list \<Rightarrow> UInt64 list \<Rightarrow> UInt64 list \<Rightarrow> 'w \<Rightarrow> (error + UInt8 list) \<times> 'w" where
  "isIn_loop to_parent null_value' ancestor_ids 0 out children parents w = (Inr out, w)"
| "isIn_loop to_parent null_value' ancestor_ids (Suc n) out children parents w =
     (case isIn_pass null_value' ancestor_ids parents out children 0 0 0 of
        Inl e \<Rightarrow> (Inl e, w)
      | Inr (out', children', new_children_idx) \<Rightarrow>
          if new_children_idx = 0 then (Inr out', w)
          else
            (let children'' = take new_children_idx children'
             in case to_parent w children'' of
                  (Inl e, w') \<Rightarrow> (Inl e, w')
                | (Inr parents', w') \<Rightarrow>
                    isIn_loop to_parent null_value' ancestor_ids n out' children'' parents' w'))"

definition isInImpl ::
  "('w \<Rightarrow> UInt64 list \<Rightarrow> (error + UInt64 list) \<times> 'w) \<Rightarrow> nat \<Rightarrow> UInt64 \<Rightarrow> UInt64 list
     \<Rightarrow> AncestorType \<Rightarrow> UInt8 list \<Rightarrow> 'w \<Rightarrow> (error + UInt8 list) \<times> 'w" where
  "isInImpl to_parent max_depth null_value' child_ids ancestor_ids out w =
     (let out_size = length out
      in isIn_loop to_parent null_value' ancestor_ids max_depth
           (replicate out_size 0xFF) (replicate out_size 0) child_ids w)"

definition isInVectorVector ::
  "(UInt64, UInt64, 's, 'r) collaborators \<Rightarrow> UInt64 CacheDictionary \<Rightarrow> ('s, 'r) state
     \<Rightarrow> UInt64 list \<Rightarrow> UInt64 list \<Rightarrow> UInt8 list \<Rightarrow> (error + UInt8 list) \<times> ('s, 'r) state" where
  "isInVectorVector env d st child_ids ancestor_ids out =
     (case hierarchical_attribute d of
        None \<Rightarrow> (Inl Undefined_behaviour, st)
      | Some attribute \<Rightarrow>
          isInImpl (toParent env d) (DBMS_HIERARCHICAL_DICTIONARY_MAX_DEPTH env)
            (null_value attribute) child_ids (Vector ancestor_ids) out st)"


text \<open>
  The first loop of \<^verbatim>\<open>isInConstantVector\<close>, which collects the ancestors of the child; the
  first argument after the parameters counts the iterations that remain. \<^verbatim>\<open>parent[0]\<close> is an
  unchecked read of the column that \<^verbatim>\<open>toParent\<close> assigned.
\<close>

fun find_ancestors ::
  "('w \<Rightarrow> UInt64 list \<Rightarrow> (error + UInt64 list) \<times> 'w) \<Rightarrow> UInt64 \<Rightarrow> nat \<Rightarrow> UInt64
     \<Rightarrow> UInt64 list \<Rightarrow> 'w \<Rightarrow> (error + UInt64 list) \<times> 'w" where
  "find_ancestors to_parent null_value' 0 child ancestors w = (Inr ancestors, w)"
| "find_ancestors to_parent null_value' (Suc n) child ancestors w =
     (case to_parent w [child] of
        (Inl e, w') \<Rightarrow> (Inl e, w')
      | (Inr parent, w') \<Rightarrow>
          if parent = [] then (Inl Undefined_behaviour, w')
          else if parent ! 0 = null_value' then (Inr ancestors, w')
          else find_ancestors to_parent null_value' n (parent ! 0) (ancestors @ [parent ! 0]) w')"

text \<open>
  The second loop fills \<open>out\<close> by linear search; \<^verbatim>\<open>ancestor_ids[i]\<close> is an unchecked read.
\<close>

definition isInConstantVectorImpl ::
  "('w \<Rightarrow> UInt64 list \<Rightarrow> (error + UInt64 list) \<times> 'w) \<Rightarrow> nat \<Rightarrow> UInt64 \<Rightarrow> UInt64
     \<Rightarrow> UInt64 list \<Rightarrow> UInt8 list \<Rightarrow> 'w \<Rightarrow> (error + UInt8 list) \<times> 'w" where
  "isInConstantVectorImpl to_parent max_depth null_value' child_id ancestor_ids out w =
     (case find_ancestors to_parent null_value' max_depth child_id [child_id] w of
        (Inl e, w') \<Rightarrow> (Inl e, w')
      | (Inr ancestors, w') \<Rightarrow>
          if length ancestor_ids < length out then (Inl Undefined_behaviour, w')
          else (Inr (map (\<lambda>i. if ancestor_ids ! i \<in> set ancestors then 1 else 0)
                       [0 ..< length out]), w'))"

definition isInConstantVector ::
  "(UInt64, UInt64, 's, 'r) collaborators \<Rightarrow> UInt64 CacheDictionary \<Rightarrow> ('s, 'r) state
     \<Rightarrow> UInt64 \<Rightarrow> UInt64 list \<Rightarrow> UInt8 list \<Rightarrow> (error + UInt8 list) \<times> ('s, 'r) state" where
  "isInConstantVector env d st child_id ancestor_ids out =
     (case hierarchical_attribute d of
        None \<Rightarrow> (Inl Undefined_behaviour, st)
      | Some attribute \<Rightarrow>
          isInConstantVectorImpl (toParent env d) (DBMS_HIERARCHICAL_DICTIONARY_MAX_DEPTH env)
            (null_value attribute) child_id ancestor_ids out st)"

section \<open>Reference notions for the properties\<close>

text \<open>
  The keys that the external source returns for a refresh: the keys of every block of its
  stream.
\<close>

fun source_keys ::
  "('k, 'v, 's, 'r) collaborators \<Rightarrow> 'v CacheDictionary \<Rightarrow> (error + 'v columns) list
     \<Rightarrow> 'k list" where
  "source_keys env d [] = []"
| "source_keys env d (Inl e # stream) = source_keys env d stream"
| "source_keys env d (Inr block # stream) =
     extractKeys env (take (keys_size (dict_struct d)) block) @ source_keys env d stream"

text \<open>
  The requested key set of a unit: its keys by value for a simple dictionary, the keys of
  the selected rows of its key columns for a complex one.
\<close>

definition requested_keys ::
  "('k, 'v, 's, 'r) collaborators \<Rightarrow> 'v CacheDictionary \<Rightarrow> ('k, 'v) CacheDictionaryUpdateUnit
     \<Rightarrow> 'k set" where
  "requested_keys env d update_unit =
     (case dictionary_key_type d of
        simple \<Rightarrow> set (requested_simple_keys update_unit)
      | complex \<Rightarrow>
          (\<lambda>row. extractKeys env (requested_complex_key_columns update_unit) ! row)
            ` set (requested_complex_key_rows update_unit))"

text \<open>
  What the storage answers to the lookup of a query, the state the lookup leaves, and the
  condition under which \<^verbatim>\<open>getColumnsImpl\<close> reaches its last branch, the sync update: neither
  of the two conditions before it holds.
\<close>

definition storage_lookup ::
  "('k, 'v, 's, 'r) collaborators \<Rightarrow> 'v CacheDictionary \<Rightarrow> ('s, 'r) state \<Rightarrow> string list
     \<Rightarrow> 'k list \<Rightarrow> ('k, 'v) FetchResult" where
  "storage_lookup env d st attribute_names keys =
     fst (fetchColumnsForKeys env (storage st) keys
            (DictionaryStorageFetchRequest (dict_struct d) attribute_names))"

definition state_after_lookup ::
  "('k, 'v, 's, 'r) collaborators \<Rightarrow> 'v CacheDictionary \<Rightarrow> ('s, 'r) state \<Rightarrow> string list
     \<Rightarrow> 'k list \<Rightarrow> ('s, 'r) state" where
  "state_after_lookup env d st attribute_names keys =
     st\<lparr>storage := snd (fetchColumnsForKeys env (storage st) keys
                          (DictionaryStorageFetchRequest (dict_struct d) attribute_names))\<rparr>"

definition sync_update_branch ::
  "'v CacheDictionary \<Rightarrow> 'k list \<Rightarrow> ('k, 'v) FetchResult \<Rightarrow> bool" where
  "sync_update_branch d keys fr \<longleftrightarrow>
     \<not> (not_found_keys_size keys fr = 0 \<and> expired_keys_size fr = 0)
     \<and> \<not> (not_found_keys_size keys fr = 0 \<and> expired_keys_size fr > 0
           \<and> allow_read_expired_keys d)"

text \<open>
  The row of the merged output for the key at position \<open>key_index\<close>, by precedence: the row
  of the storage when the key is in the index of the keys found there, else the row fetched
  during the update when the key is in the update's index, else the default.
\<close>

definition precedence_row ::
  "'v column \<Rightarrow> ('k, nat) mapping \<Rightarrow> 'v column \<Rightarrow> ('k, nat) mapping \<Rightarrow> 'v DefaultValueProvider
     \<Rightarrow> 'k \<Rightarrow> nat \<Rightarrow> error + 'v" where
  "precedence_row from_storage in_cache during_update in_update provider key key_index =
     (case Mapping.lookup in_cache key of
        Some row \<Rightarrow> if row < length from_storage then Inr (from_storage ! row)
                    else Inl Undefined_behaviour
      | None \<Rightarrow>
          (case Mapping.lookup in_update key of
             Some row \<Rightarrow> if row < length during_update then Inr (during_update ! row)
                         else Inl Undefined_behaviour
           | None \<Rightarrow> getDefaultValue provider key_index))"

text \<open>
  Modelled from the spec: the storage is not part of the sources. By the spec (3, 4.A) the
  result of a lookup over a key list has a column vector with one row per found or expired
  slot, and two indexes from the found and from the expired keys to rows of that vector,
  whose key sets are disjoint (invariant 2) and come from the key list.
\<close>

definition fetch_result_ok :: "'k list \<Rightarrow> fetch_request \<Rightarrow> ('k, 'v) FetchResult \<Rightarrow> bool" where
  "fetch_result_ok keys r fr \<longleftrightarrow>
     Mapping.keys (found_keys_to_fetched_columns_index fr) \<subseteq> set keys
     \<and> Mapping.keys (expired_keys_to_fetched_columns_index fr) \<subseteq> set keys
     \<and> Mapping.keys (found_keys_to_fetched_columns_index fr)
         \<inter> Mapping.keys (expired_keys_to_fetched_columns_index fr) = {}
     \<and> (\<forall>i < attributesSize r. shouldFillResultColumnWithIndex r i \<longrightarrow>
           length (fetched_columns fr ! i) =
             Mapping.size (found_keys_to_fetched_columns_index fr)
             + Mapping.size (expired_keys_to_fetched_columns_index fr))"

text \<open>
  The deadline that a duration of \<open>n\<close> seconds gives fits the clock when neither the
  conversion of \<open>n\<close> to the signed count, nor the count of ticks, nor the sum with the
  current time leaves the signed 64-bit range.
\<close>

definition deadline_fits :: "('k, 'v, 's, 'r) collaborators \<Rightarrow> UInt64 \<Rightarrow> bool" where
  "deadline_fits env n \<longleftrightarrow>
     uint n < 2 ^ 63
     \<and> - (2 ^ 63) \<le> uint n * ticks_per_second env
     \<and> uint n * ticks_per_second env < 2 ^ 63
     \<and> - (2 ^ 63) \<le> system_clock_now env + uint n * ticks_per_second env
     \<and> system_clock_now env + uint n * ticks_per_second env < 2 ^ 63"



section \<open>Example dictionaries\<close>

text \<open>
  A dictionary of simple keys with one attribute \<open>a\<close>, which does not allow reading expired
  keys. Its storage holds key 9 with the value 90, expired; the state of the storage counts
  the inserts. The source has 91 for key 9, and answers a load with the block of the key
  column \<open>[9]\<close> and the attribute column \<open>[91]\<close>.
\<close>

definition example_dictionary :: "UInt64 CacheDictionary" where
  "example_dictionary =
     \<lparr>dictionary_key_type = simple,
      dict_struct =
        \<lparr>attributes = [\<lparr>name = ''a'', underlying_type = utUInt64, null_value = 0,
                        hierarchical = False\<rparr>],
         keys_size = 1\<rparr>,
      allow_read_expired_keys = False,
      hierarchical_attribute = None\<rparr>"

definition example_fetch :: "fetch_request \<Rightarrow> (UInt64, UInt64) FetchResult" where
  "example_fetch r =
     \<lparr>fetched_columns = [if containsAttribute r ''a'' then [90] else []],
      found_keys_to_fetched_columns_index = Mapping.empty,
      expired_keys_to_fetched_columns_index = Mapping.update 9 0 Mapping.empty,
      not_found_or_expired_keys = [9],
      not_found_or_expired_keys_indexes = [0]\<rparr>"

definition example_collaborators ::
  "(error + UInt64 columns) list \<Rightarrow> (UInt64, UInt64, nat, unit) collaborators" where
  "example_collaborators stream =
     \<lparr>extractKeys = (\<lambda>key_columns. case key_columns of [] \<Rightarrow> [] | c # _ \<Rightarrow> c),
      fetchColumnsForKeys = (\<lambda>s keys r. (example_fetch r, s)),
      insertColumnsForKeys = (\<lambda>s keys cols. Suc s),
      returnsFetchedColumnsInOrderOfRequestedKeys = True,
      loadIds = (\<lambda>ids. stream),
      loadKeys = (\<lambda>key_columns rows. stream),
      calculateDurationWithBackoff = (\<lambda>rnd n. (5, rnd)),
      system_clock_now = 100,
      ticks_per_second = 1,
      queue_has_space = True,
      update_finishes_in_time = True,
      DBMS_HIERARCHICAL_DICTIONARY_MAX_DEPTH = 1000\<rparr>"

definition example_state :: "(nat, unit) state" where
  "example_state =
     \<lparr>storage = 0, error_count = 0, last_exception = None, backoff_end_time = 0,
      rnd_engine = ()\<rparr>"

text \<open>
  A dictionary whose attribute \<open>parent\<close> is hierarchical, with null value 0. Its storage has
  every key fresh: the parent of 1 is 2 and the parent of 2 is 1; the parent of 20 is 21 and
  the parent of 21 is 30; every other key has no parent.
\<close>

definition example_parent :: "UInt64 \<Rightarrow> UInt64" where
  "example_parent k =
     (if k = 1 then 2 else if k = 2 then 1 else if k = 20 then 21 else if k = 21 then 30 else 0)"

definition example_hierarchy_attribute :: "UInt64 dictionary_attribute" where
  "example_hierarchy_attribute =
     \<lparr>name = ''parent'', underlying_type = utUInt64, null_value = 0, hierarchical = True\<rparr>"

definition example_hierarchy :: "UInt64 CacheDictionary" where
  "example_hierarchy =
     \<lparr>dictionary_key_type = simple,
      dict_struct = \<lparr>attributes = [example_hierarchy_attribute], keys_size = 1\<rparr>,
      allow_read_expired_keys = False,
      hierarchical_attribute = Some example_hierarchy_attribute\<rparr>"

definition example_hierarchy_collaborators :: "(UInt64, UInt64, unit, unit) collaborators" where
  "example_hierarchy_collaborators =
     \<lparr>extractKeys = (\<lambda>key_columns. case key_columns of [] \<Rightarrow> [] | c # _ \<Rightarrow> c),
      fetchColumnsForKeys =
        (\<lambda>s keys r.
           (\<lparr>fetched_columns = [map example_parent keys],
             found_keys_to_fetched_columns_index = index_fetched_keys keys 0 Mapping.empty,
             expired_keys_to_fetched_columns_index = Mapping.empty,
             not_found_or_expired_keys = [],
             not_found_or_expired_keys_indexes = []\<rparr>, s)),
      insertColumnsForKeys = (\<lambda>s keys cols. s),
      returnsFetchedColumnsInOrderOfRequestedKeys = True,
      loadIds = (\<lambda>ids. []),
      loadKeys = (\<lambda>key_columns rows. []),
      calculateDurationWithBackoff = (\<lambda>rnd n. (5, rnd)),
      system_clock_now = 100,
      ticks_per_second = 1,
      queue_has_space = True,
      update_finishes_in_time = True,
      DBMS_HIERARCHICAL_DICTIONARY_MAX_DEPTH = 1000\<rparr>"

definition example_hierarchy_state :: "(unit, unit) state" where
  "example_hierarchy_state =
     \<lparr>storage = (), error_count = 0, last_exception = None, backoff_end_time = 0,
      rnd_engine = ()\<rparr>"

text \<open>The unit that a query for attribute \<open>a\<close> of key 9 builds on the first example.\<close>

definition example_unit :: "(UInt64, UInt64) CacheDictionaryUpdateUnit" where
  "example_unit =
     update_unit_simple [9]
       (DictionaryStorageFetchRequest (dict_struct example_dictionary) [''a''])"

text \<open>
  A dictionary of simple keys with the attributes \<open>a\<close> and \<open>b\<close>, in this order in the
  schema, whose null values are 1 and 2. Its storage is empty, so every key of a lookup is
  absent, and its source has no row for any key.
\<close>

definition example_two_attributes :: "UInt64 CacheDictionary" where
  "example_two_attributes =
     \<lparr>dictionary_key_type = simple,
      dict_struct =
        \<lparr>attributes =
           [\<lparr>name = ''a'', underlying_type = utUInt64, null_value = 1, hierarchical = False\<rparr>,
            \<lparr>name = ''b'', underlying_type = utUInt64, null_value = 2, hierarchical = False\<rparr>],
         keys_size = 1\<rparr>,
      allow_read_expired_keys = False,
      hierarchical_attribute = None\<rparr>"

definition example_empty_collaborators :: "(UInt64, UInt64, unit, unit) collaborators" where
  "example_empty_collaborators =
     \<lparr>extractKeys = (\<lambda>key_columns. case key_columns of [] \<Rightarrow> [] | c # _ \<Rightarrow> c),
      fetchColumnsForKeys =
        (\<lambda>s keys r.
           (\<lparr>fetched_columns = makeAttributesResultColumns r,
             found_keys_to_fetched_columns_index = Mapping.empty,
             expired_keys_to_fetched_columns_index = Mapping.empty,
             not_found_or_expired_keys = keys,
             not_found_or_expired_keys_indexes = [0 ..< length keys]\<rparr>, s)),
      insertColumnsForKeys = (\<lambda>s keys cols. s),
      returnsFetchedColumnsInOrderOfRequestedKeys = True,
      loadIds = (\<lambda>ids. []),
      loadKeys = (\<lambda>key_columns rows. []),
      calculateDurationWithBackoff = (\<lambda>rnd n. (5, rnd)),
      system_clock_now = 100,
      ticks_per_second = 1,
      queue_has_space = True,
      update_finishes_in_time = True,
      DBMS_HIERARCHICAL_DICTIONARY_MAX_DEPTH = 1000\<rparr>"

definition example_empty_state :: "(unit, unit) state" where
  "example_empty_state =
     \<lparr>storage = (), error_count = 0, last_exception = None, backoff_end_time = 0,
      rnd_engine = ()\<rparr>"

section \<open>Unfolding the definitions\<close>

lemmas request_defs =
  DictionaryStorageFetchRequest_def attributesSize_def containsAttribute_def
  shouldFillResultColumnWithIndex_def makeAttributesResultColumns_def filterRequestedColumns_def
  List.map_filter_def

lemmas column_defs = insertFrom_def insertRangeFrom_def getDefaultValue_def

lemmas update_defs =
  update_def source_stream_def update_unit_simple_def update_unit_complex_def
  make_update_unit_def tryPushToUpdateQueueOrThrow_def waitForCurrentUpdateFinish_def seconds_def
  plus_duration_def int64_def

lemmas pipeline_defs =
  getColumn_def getColumns_def getColumnsImpl_def hasKeys_def has_key_def columns_from_storage_def
  aggregateColumns_def aggregateColumnsInOrderOfKeys_def
  not_found_keys_size_def expired_keys_size_def found_keys_size_def Mapping.size_def front_def

lemmas example_defs =
  example_dictionary_def example_fetch_def example_collaborators_def example_state_def
  example_unit_def

section \<open>The backoff state\<close>

lemma read_stream_keeps_backoff:
  "read_stream env d stream u st n = (outcome, u', st') \<Longrightarrow>
   error_count st' = error_count st \<and> last_exception st' = last_exception st
   \<and> backoff_end_time st' = backoff_end_time st \<and> rnd_engine st' = rnd_engine st"
proof (induction env d stream u st n rule: read_stream.induct)
  case (1 env d update_unit st found_num)
  then show ?case by simp
next
  case (2 env d e stream update_unit st found_num)
  then show ?case by simp
next
  case (3 env d block stream update_unit st found_num)
  show ?case
  proof (cases "block = [] \<or> length block < keys_size (dict_struct d)")
    case True
    with 3(2) show ?thesis by (auto simp: Let_def split: if_splits)
  next
    case False
    then show ?thesis
      using 3(2) 3(1)
      by (auto simp: Let_def split: if_splits prod.splits option.splits)
  qed
qed

lemma example_update_ok:
  "update (example_collaborators [Inr [[9], [91]]]) example_dictionary example_state example_unit =
     (None,
      example_unit\<lparr>fetched_columns_during_update := [[91]],
                   requested_keys_to_fetched_columns_during_update_index :=
                     Mapping.update 9 0 Mapping.empty\<rparr>,
      example_state\<lparr>storage := 1\<rparr>)"
  by (simp add: example_defs update_defs request_defs column_defs)

lemma example_update_failed:
  "update (example_collaborators [Inl (Source_exception ''down'')]) example_dictionary
     example_state example_unit =
     (Some (Update_failed (Source_exception ''down'')), example_unit,
      example_state\<lparr>error_count := 1, last_exception := Some (Source_exception ''down''),
                    backoff_end_time := 105\<rparr>)"
  by (simp add: example_defs update_defs request_defs column_defs)

lemma plus_duration_seconds_fits:
  assumes "deadline_fits env n"
  shows "plus_duration (system_clock_now env) (seconds env n)
           = system_clock_now env + uint n * ticks_per_second env"
proof -
  have "- (2 ^ 63) \<le> (0 :: int)" by simp
  also have "0 \<le> uint n" by simp
  finally have "- (2 ^ 63) \<le> uint n" .
  moreover from assms have "uint n < 2 ^ 63" by (simp add: deadline_fits_def)
  ultimately have "signed_take_bit 63 (uint n) = uint n"
    by (rule signed_take_bit_int_eq_self)
  then have "sint n = uint n" by (simp add: sint_uint)
  moreover from assms
  have "signed_take_bit 63 (uint n * ticks_per_second env) = uint n * ticks_per_second env"
    by (intro signed_take_bit_int_eq_self) (simp_all add: deadline_fits_def)
  moreover from assms
  have "signed_take_bit 63 (system_clock_now env + uint n * ticks_per_second env)
          = system_clock_now env + uint n * ticks_per_second env"
    by (intro signed_take_bit_int_eq_self) (simp_all add: deadline_fits_def)
  ultimately show ?thesis by (simp add: plus_duration_def seconds_def int64_def)
qed

text \<open>
  C7. When \<^verbatim>\<open>update\<close> returns without an exception, the fetch has completed and the backoff
  state is reset: \<open>error_count\<close> is 0, \<open>last_exception\<close> is empty and \<open>backoff_end_time\<close> is the
  zero time point. When it leaves with the update-failed error wrapping the exception \<open>e\<close> of
  the fetch, \<open>error_count\<close> has been incremented, \<open>e\<close> is stored in \<open>last_exception\<close>, and
  \<open>backoff_end_time\<close> is the time of the call plus the duration that
  \<^verbatim>\<open>calculateDurationWithBackoff\<close> draws from the random engine for the incremented count,
  in the signed 64-bit arithmetic of the clock: it is the sum of the time and the duration in
  ticks whenever that deadline fits the clock, and the sum wrapped around otherwise.
\<close>

theorem update_backoff_state:
  assumes "update env d st u = (outcome, u', st')"
  shows "(outcome = None \<longrightarrow>
            error_count st' = 0 \<and> last_exception st' = None \<and> backoff_end_time st' = 0)
       \<and> (\<forall>e. outcome = Some (Update_failed e) \<longrightarrow>
            error_count st' = error_count st + 1
          \<and> last_exception st' = Some e
          \<and> backoff_end_time st' =
              plus_duration (system_clock_now env)
                (seconds env (fst (calculateDurationWithBackoff env (rnd_engine st)
                                     (error_count st + 1))))
          \<and> (deadline_fits env (fst (calculateDurationWithBackoff env (rnd_engine st)
                                        (error_count st + 1))) \<longrightarrow>
              backoff_end_time st' =
                system_clock_now env
                + uint (fst (calculateDurationWithBackoff env (rnd_engine st)
                               (error_count st + 1)))
                  * ticks_per_second env))"
proof (cases "system_clock_now env > backoff_end_time st")
  case False
  with assms show ?thesis by (auto simp: update_def)
next
  case True
  obtain o1 u1 st1 where r: "read_stream env d (source_stream env d u) u st 0 = (o1, u1, st1)"
    by (metis prod_cases3)
  note k = read_stream_keeps_backoff [OF r]
  have main: "(outcome = None \<longrightarrow>
            error_count st' = 0 \<and> last_exception st' = None \<and> backoff_end_time st' = 0)
       \<and> (\<forall>e. outcome = Some (Update_failed e) \<longrightarrow>
            error_count st' = error_count st + 1
          \<and> last_exception st' = Some e
          \<and> backoff_end_time st' =
              plus_duration (system_clock_now env)
                (seconds env (fst (calculateDurationWithBackoff env (rnd_engine st)
                                     (error_count st + 1)))))"
    using assms True r k
    by (auto simp: update_def Let_def split: option.splits if_splits prod.splits)
  then show ?thesis
    using plus_duration_seconds_fits
            [of env "fst (calculateDurationWithBackoff env (rnd_engine st) (error_count st + 1))"]
    by simp
qed

theorem update_backoff_state_witness:
  "(fst (update (example_collaborators [Inr [[9], [91]]]) example_dictionary example_state
           example_unit) = None
    \<and> error_count (example_state\<lparr>storage := 1\<rparr>) = 0
    \<and> last_exception (example_state\<lparr>storage := 1\<rparr>) = None
    \<and> backoff_end_time (example_state\<lparr>storage := 1\<rparr>) = 0)
   \<and> (fst (update (example_collaborators [Inl (Source_exception ''down'')]) example_dictionary
              example_state example_unit) = Some (Update_failed (Source_exception ''down''))
      \<and> error_count (example_state\<lparr>error_count := 1,
          last_exception := Some (Source_exception ''down''), backoff_end_time := 105\<rparr>)
        = error_count example_state + 1
      \<and> last_exception (example_state\<lparr>error_count := 1,
          last_exception := Some (Source_exception ''down''), backoff_end_time := 105\<rparr>)
        = Some (Source_exception ''down'')
      \<and> (105 :: int) =
          plus_duration (system_clock_now (example_collaborators [Inl (Source_exception ''down'')]))
            (seconds (example_collaborators [Inl (Source_exception ''down'')]) 5)
      \<and> deadline_fits (example_collaborators [Inl (Source_exception ''down'')]) 5
      \<and> (105 :: int) =
          system_clock_now (example_collaborators [Inl (Source_exception ''down'')])
          + uint (5 :: UInt64)
            * ticks_per_second (example_collaborators [Inl (Source_exception ''down'')]))"
proof -
  have fits: "deadline_fits (example_collaborators [Inl (Source_exception ''down'')]) 5"
    by (simp add: deadline_fits_def example_collaborators_def)
  have drawn: "fst (calculateDurationWithBackoff
                      (example_collaborators [Inl (Source_exception ''down'')])
                      (rnd_engine example_state) (error_count example_state + 1)) = 5"
    by (simp add: example_collaborators_def)
  from update_backoff_state [OF example_update_ok]
       update_backoff_state [OF example_update_failed] fits
  show ?thesis
    unfolding example_update_ok example_update_failed fst_conv drawn
    by (simp add: example_state_def example_collaborators_def seconds_def plus_duration_def
          int64_def)
qed

text \<open>
  A deadline that does not fit wraps around: where the clock ticks in nanoseconds, a duration
  of \<open>10 ^ 10\<close> seconds added to the time 100 gives a negative time point.
\<close>

lemma deadline_wraps_around:
  "\<not> deadline_fits (example_collaborators []\<lparr>ticks_per_second := 1000000000\<rparr>) 10000000000
   \<and> plus_duration (system_clock_now (example_collaborators []))
       (seconds (example_collaborators []\<lparr>ticks_per_second := 1000000000\<rparr>) 10000000000)
     = - 8446744073709551516"
  by (simp add: deadline_fits_def example_collaborators_def seconds_def plus_duration_def
        int64_def)

text \<open>
  C4, as the code has it. Whenever the current time is not after \<open>backoff_end_time\<close>,
  \<^verbatim>\<open>update\<close> skips the fetch and fails with the suppressed-by-backoff error carrying that
  deadline, and leaves the unit and the state as they were; so a retry that is still not
  after the deadline fails with the same deadline. Once the current time is strictly after the
  deadline the fetch is attempted: the outcome is no suppression, it is what reading the
  stream of the source gives.
\<close>

theorem update_backoff_window:
  "(system_clock_now env \<le> backoff_end_time st \<longrightarrow>
      update env d st u = (Some (Update_suppressed_by_backoff (backoff_end_time st)), u, st))
   \<and> (system_clock_now env \<le> backoff_end_time st
        \<and> system_clock_now env' \<le> backoff_end_time st \<longrightarrow>
      update env' d (snd (snd (update env d st u))) u' =
        (Some (Update_suppressed_by_backoff (backoff_end_time st)), u', st))
   \<and> (backoff_end_time st < system_clock_now env \<longrightarrow>
      (\<forall>t. fst (update env d st u) \<noteq> Some (Update_suppressed_by_backoff t))
      \<and> fst (update env d st u) =
          (case fst (read_stream env d (source_stream env d u) u st 0) of
             None \<Rightarrow> None
           | Some e \<Rightarrow> Some (if e = Undefined_behaviour then e else Update_failed e)))"
  by (auto simp: update_def Let_def split: option.splits prod.splits)

theorem update_backoff_window_witness:
  "system_clock_now (example_collaborators [Inr [[9], [91]]])
     \<le> backoff_end_time (example_state\<lparr>backoff_end_time := 100\<rparr>)
   \<and> update (example_collaborators [Inr [[9], [91]]]) example_dictionary
       (example_state\<lparr>backoff_end_time := 100\<rparr>) example_unit =
     (Some (Update_suppressed_by_backoff 100), example_unit,
      example_state\<lparr>backoff_end_time := 100\<rparr>)
   \<and> update (example_collaborators [Inr [[9], [91]]]) example_dictionary
       (snd (snd (update (example_collaborators [Inr [[9], [91]]]) example_dictionary
                    (example_state\<lparr>backoff_end_time := 100\<rparr>) example_unit)))
       example_unit =
     (Some (Update_suppressed_by_backoff 100), example_unit,
      example_state\<lparr>backoff_end_time := 100\<rparr>)
   \<and> backoff_end_time example_state
       < system_clock_now (example_collaborators [Inr [[9], [91]]])
   \<and> fst (update (example_collaborators [Inr [[9], [91]]]) example_dictionary example_state
            example_unit) = None"
proof -
  have now: "system_clock_now (example_collaborators [Inr [[9], [91]]]) = 100"
    by (simp add: example_collaborators_def)
  have late: "backoff_end_time (example_state\<lparr>backoff_end_time := 100\<rparr>) = 100"
    by simp
  have early: "backoff_end_time example_state = 0"
    by (simp add: example_state_def)
  show ?thesis
    using update_backoff_window
            [of "example_collaborators [Inr [[9], [91]]]"
                "example_state\<lparr>backoff_end_time := 100\<rparr>" example_dictionary example_unit
                "example_collaborators [Inr [[9], [91]]]" example_unit]
          update_backoff_window
            [of "example_collaborators [Inr [[9], [91]]]" example_state example_dictionary
                example_unit "example_collaborators [Inr [[9], [91]]]" example_unit]
    unfolding now late early example_update_ok
    by simp
qed

text \<open>
  At the deadline itself the current time is not before it, and the fetch is still
  suppressed: the source, which would answer, is not asked and the storage is not written.
\<close>

theorem update_at_deadline_counterexample:
  "\<not> system_clock_now (example_collaborators [Inr [[9], [91]]])
       < backoff_end_time (example_state\<lparr>backoff_end_time := 100\<rparr>)
   \<and> update (example_collaborators [Inr [[9], [91]]]) example_dictionary
       (example_state\<lparr>backoff_end_time := 100\<rparr>) example_unit =
     (Some (Update_suppressed_by_backoff 100), example_unit,
      example_state\<lparr>backoff_end_time := 100\<rparr>)"
  by (simp add: example_defs update_defs)

section \<open>The entry points\<close>

lemma example_getColumns:
  "getColumns (example_collaborators [Inr [[9], [91]]]) example_dictionary example_state
     [''a''] [()] [[9]] [()] [Some [7]] = (Inr [[91]], example_state\<lparr>storage := 1\<rparr>)"
  by (simp add: example_defs pipeline_defs update_defs request_defs column_defs)

lemma example_hasKeys:
  "hasKeys (example_collaborators [Inr [[9], [91]]]) example_dictionary example_state
     [[9]] [()] = (Inr [0], example_state)"
  by (simp add: example_defs pipeline_defs update_defs request_defs column_defs)

text \<open>
  C9. \<^verbatim>\<open>getColumn\<close> returns the first column of what \<^verbatim>\<open>getColumns\<close> returns on the
  one-element lists of the same attribute name, result type and default column, with the same
  state, and fails with the same error when \<^verbatim>\<open>getColumns\<close> fails.
\<close>

theorem getColumn_front_of_getColumns:
  "(getColumns env d st [attribute_name] [result_type] key_columns key_types
       [default_values_column'] = (Inr cols, st') \<and> cols \<noteq> [] \<longrightarrow>
      getColumn env d st attribute_name result_type key_columns key_types default_values_column'
        = (Inr (cols ! 0), st'))
   \<and> (getColumns env d st [attribute_name] [result_type] key_columns key_types
         [default_values_column'] = (Inl e, st') \<longrightarrow>
      getColumn env d st attribute_name result_type key_columns key_types default_values_column'
        = (Inl e, st'))"
  by (cases cols) (auto simp: getColumn_def front_def)

lemma example_getColumns_failed:
  "getColumns (example_collaborators [Inl (Source_exception ''down'')]) example_dictionary
     example_state [''a''] [()] [[9]] [()] [Some [7]] =
     (Inl (Update_failed (Source_exception ''down'')),
      example_state\<lparr>error_count := 1, last_exception := Some (Source_exception ''down''),
                    backoff_end_time := 105\<rparr>)"
  by (simp add: example_defs pipeline_defs update_defs request_defs column_defs)

theorem getColumn_front_of_getColumns_witness:
  "getColumns (example_collaborators [Inr [[9], [91]]]) example_dictionary example_state
     [''a''] [()] [[9]] [()] [Some [7]] = (Inr [[91]], example_state\<lparr>storage := 1\<rparr>)
   \<and> [[91 :: UInt64]] \<noteq> []
   \<and> getColumn (example_collaborators [Inr [[9], [91]]]) example_dictionary example_state
       ''a'' () [[9]] [()] (Some [7]) = (Inr ([[91]] ! 0), example_state\<lparr>storage := 1\<rparr>)
   \<and> getColumns (example_collaborators [Inl (Source_exception ''down'')]) example_dictionary
       example_state [''a''] [()] [[9]] [()] [Some [7]] =
       (Inl (Update_failed (Source_exception ''down'')),
        example_state\<lparr>error_count := 1, last_exception := Some (Source_exception ''down''),
                      backoff_end_time := 105\<rparr>)
   \<and> getColumn (example_collaborators [Inl (Source_exception ''down'')]) example_dictionary
       example_state ''a'' () [[9]] [()] (Some [7]) =
       (Inl (Update_failed (Source_exception ''down'')),
        example_state\<lparr>error_count := 1, last_exception := Some (Source_exception ''down''),
                      backoff_end_time := 105\<rparr>)"
  using getColumn_front_of_getColumns
          [of "example_collaborators [Inr [[9], [91]]]" example_dictionary example_state
              "''a''" "()" "[[9]]" "[()]" "Some [7]" "[[91]]" "example_state\<lparr>storage := 1\<rparr>"]
        getColumn_front_of_getColumns
          [where env = "example_collaborators [Inl (Source_exception ''down'')]"
             and d = example_dictionary and st = example_state and attribute_name = "''a''"
             and result_type = "()" and key_columns = "[[9]]" and key_types = "[()]"
             and default_values_column' = "Some [7]"
             and e = "Update_failed (Source_exception ''down'')"
             and st' = "example_state\<lparr>error_count := 1,
                          last_exception := Some (Source_exception ''down''),
                          backoff_end_time := 105\<rparr>"]
        example_getColumns example_getColumns_failed
  by simp

section \<open>The ancestors of one child\<close>

lemmas hierarchy_example_defs =
  example_hierarchy_def example_hierarchy_attribute_def example_hierarchy_collaborators_def
  example_hierarchy_state_def

lemma example_toParent:
  "toParent example_hierarchy_collaborators example_hierarchy example_hierarchy_state [k] =
     (Inr [example_parent k], example_hierarchy_state)"
  by (simp add: toParent_def hierarchy_example_defs pipeline_defs request_defs)

lemma find_ancestors_grows:
  "find_ancestors to_parent null_value' n child ancestors w = (Inr found, w') \<Longrightarrow>
   set ancestors \<subseteq> set found"
proof (induction n arbitrary: child ancestors w)
  case 0
  then show ?case by simp
next
  case (Suc n)
  obtain r w1 where tp: "to_parent w [child] = (r, w1)" by (cases "to_parent w [child]")
  show ?case
  proof (cases r)
    case (Inl e)
    with Suc.prems tp show ?thesis by simp
  next
    case (Inr parent)
    show ?thesis
    proof (cases "parent = [] \<or> parent ! 0 = null_value'")
      case True
      with Suc.prems tp Inr show ?thesis by (auto split: if_splits)
    next
      case False
      with Suc.prems tp Inr
      have "find_ancestors to_parent null_value' n (parent ! 0) (ancestors @ [parent ! 0]) w1
              = (Inr found, w')"
        by simp
      from Suc.IH [OF this] show ?thesis by auto
    qed
  qed
qed

lemma find_ancestors_pos:
  "0 < n \<Longrightarrow>
   find_ancestors to_parent null_value' n child ancestors w =
     (case to_parent w [child] of
        (Inl e, w') \<Rightarrow> (Inl e, w')
      | (Inr parent, w') \<Rightarrow>
          if parent = [] then (Inl Undefined_behaviour, w')
          else if parent ! 0 = null_value' then (Inr ancestors, w')
          else find_ancestors to_parent null_value' (n - 1) (parent ! 0)
                 (ancestors @ [parent ! 0]) w')"
proof -
  assume "0 < n"
  then obtain m where "n = Suc m" by (cases n) auto
  show ?thesis unfolding \<open>n = Suc m\<close> by (simp split: prod.splits sum.splits)
qed

lemma example_hierarchy_members:
  "hierarchical_attribute example_hierarchy = Some example_hierarchy_attribute"
  "null_value example_hierarchy_attribute = 0"
  "DBMS_HIERARCHICAL_DICTIONARY_MAX_DEPTH example_hierarchy_collaborators = 1000"
  by (simp_all add: hierarchy_example_defs)

text \<open>
  C10. \<^verbatim>\<open>isInConstantVector\<close> seeds the ancestors with the child id itself, so whenever it
  returns, its output has a row per row of \<open>out\<close> and is 1 (true) at every position whose
  queried ancestor is the child id, whatever the hierarchy holds.
\<close>

theorem isInConstantVector_child_is_own_ancestor:
  assumes "isInConstantVector env d st child_id ancestor_ids out = (Inr result, st')"
  shows "length result = length out
       \<and> (\<forall>i < length out. ancestor_ids ! i = child_id \<longrightarrow> result ! i = 1)"
proof -
  from assms obtain attribute where a: "hierarchical_attribute d = Some attribute"
    by (auto simp: isInConstantVector_def split: option.splits)
  let ?search = "find_ancestors (toParent env d) (null_value attribute)
                   (DBMS_HIERARCHICAL_DICTIONARY_MAX_DEPTH env) child_id [child_id] st"
  from assms a obtain ancestors where
    f: "?search = (Inr ancestors, st')" and
    r: "result = map (\<lambda>i. if ancestor_ids ! i \<in> set ancestors then 1 else 0) [0 ..< length out]"
    by (auto simp: isInConstantVector_def isInConstantVectorImpl_def
             split: prod.splits sum.splits if_splits)
  from find_ancestors_grows [OF f] have "child_id \<in> set ancestors" by simp
  with r show ?thesis by simp
qed

theorem isInConstantVector_child_is_own_ancestor_witness:
  "isInConstantVector example_hierarchy_collaborators example_hierarchy example_hierarchy_state
     3 [3, 5] [0, 0] = (Inr [1, 0], example_hierarchy_state)
   \<and> length [1 :: UInt8, 0] = length [0 :: UInt8, 0]
   \<and> [1 :: UInt8, 0] ! 0 = 1"
proof -
  have e: "isInConstantVector example_hierarchy_collaborators example_hierarchy
             example_hierarchy_state 3 [3, 5] [0, 0] = (Inr [1, 0], example_hierarchy_state)"
    by (simp add: isInConstantVector_def isInConstantVectorImpl_def find_ancestors_pos
          example_toParent example_parent_def example_hierarchy_members)
  from isInConstantVector_child_is_own_ancestor [OF e] e show ?thesis by simp
qed

section \<open>The index of an update unit\<close>

lemma insert_block_columns_length:
  "insert_block_columns r block skip n is cols = (outcome, cols') \<Longrightarrow>
   length cols' = length cols"
  by (induction r block skip n "is" cols rule: insert_block_columns.induct)
     (auto split: if_splits sum.splits)

lemma insert_block_columns_grows:
  "insert_block_columns r block skip n is cols = (outcome, cols') \<Longrightarrow>
   length (cols ! i) \<le> length (cols' ! i)"
proof (induction r block skip n "is" cols rule: insert_block_columns.induct)
  case (1 r block skip n cols)
  then show ?case by simp
next
  case (2 r block skip n j "is" cols)
  show ?case
  proof (cases "shouldFillResultColumnWithIndex r j")
    case False
    with "2.IH"(2) "2.prems" show ?thesis by simp
  next
    case True
    note fill = this
    show ?thesis
    proof (cases "skip + j < length block")
      case False
      with "2.prems" fill show ?thesis by simp
    next
      case True
      show ?thesis
      proof (cases "insertRangeFrom (cols ! j) (block ! (skip + j)) 0 n")
        case (Inl e)
        with "2.prems" fill True show ?thesis by simp
      next
        case (Inr c)
        with "2.IH"(1) [OF fill True Inr] "2.prems" fill True
        have "length (cols[j := c] ! i) \<le> length (cols' ! i)" by simp
        moreover from Inr have "length (cols ! j) \<le> length c"
          by (auto simp: insertRangeFrom_def split: if_splits)
        ultimately show ?thesis
          by (cases "i = j"; cases "j < length cols")
             (auto simp: nth_list_update list_update_beyond)
      qed
    qed
  qed
qed

lemma insert_block_columns_appends:
  "insert_block_columns r block skip n is cols = (None, cols') \<Longrightarrow>
   i \<in> set is \<Longrightarrow> i < length cols \<Longrightarrow> shouldFillResultColumnWithIndex r i \<Longrightarrow>
   length (cols ! i) + n \<le> length (cols' ! i)"
proof (induction r block skip n "is" cols rule: insert_block_columns.induct)
  case (1 r block skip n cols)
  then show ?case by simp
next
  case (2 r block skip n j "is" cols)
  show ?case
  proof (cases "shouldFillResultColumnWithIndex r j")
    case False
    with "2.prems" have "i \<in> set is" by auto
    with "2.IH"(2) [OF False] "2.prems" False show ?thesis by simp
  next
    case True
    note fill = this
    from "2.prems"(1) fill have pos: "skip + j < length block"
      by (auto split: if_splits)
    from "2.prems"(1) fill pos obtain c where
      c: "insertRangeFrom (cols ! j) (block ! (skip + j)) 0 n = Inr c" and
      rest: "insert_block_columns r block skip n is (cols[j := c]) = (None, cols')"
      by (auto split: sum.splits)
    from c have lc: "length c = length (cols ! j) + n"
      by (auto simp: insertRangeFrom_def split: if_splits)
    show ?thesis
    proof (cases "i = j")
      case True
      from insert_block_columns_grows [OF rest, of j] "2.prems"(3) True lc
      show ?thesis by simp
    next
      case False
      with "2.prems"(2) have "i \<in> set is" by simp
      from "2.IH"(1) [OF fill pos c rest this] "2.prems"(3,4) False
      show ?thesis by simp
    qed
  qed
qed

lemma index_in_range_final:
  assumes "\<forall>i. F i \<longrightarrow> n \<le> length (cols ! i)"
      and "\<forall>key row. L key = Some row \<longrightarrow> row < n \<and> key \<in> K"
  shows "\<forall>key row. L key = Some row \<longrightarrow> key \<in> K \<and> (\<forall>i. F i \<longrightarrow> row < length (cols ! i))"
  using assms by (meson less_le_trans)

lemma lookup_index_fetched_keys:
  "Mapping.lookup (index_fetched_keys keys row index) key = Some r \<Longrightarrow>
   (key \<in> set keys \<and> r < row + length keys) \<or> Mapping.lookup index key = Some r"
proof (induction keys arbitrary: row index)
  case Nil
  then show ?case by simp
next
  case (Cons k keys)
  from Cons.IH [of "Suc row" "Mapping.update k row index"] Cons.prems
  show ?case by (auto simp: Mapping.lookup_update' split: if_splits)
qed

lemma read_stream_index:
  assumes "read_stream env d stream u st found_num = (outcome, u', st')"
      and "length (fetched_columns_during_update u) = attributesSize (request u)"
      and "\<forall>i. shouldFillResultColumnWithIndex (request u) i \<longrightarrow>
             found_num \<le> length (fetched_columns_during_update u ! i)"
      and "\<forall>key row.
             Mapping.lookup (requested_keys_to_fetched_columns_during_update_index u) key
               = Some row \<longrightarrow> row < found_num \<and> key \<in> K"
      and "set (source_keys env d stream) \<subseteq> K"
  shows "\<forall>key row.
           Mapping.lookup (requested_keys_to_fetched_columns_during_update_index u') key
             = Some row \<longrightarrow>
           key \<in> K
           \<and> (\<forall>i. shouldFillResultColumnWithIndex (request u) i \<longrightarrow>
                  row < length (fetched_columns_during_update u' ! i))"
  using assms
proof (induction env d stream u st found_num rule: read_stream.induct)
  case (1 env d update_unit st found_num)
  from "1.prems"(1) have "u' = update_unit" by simp
  with index_in_range_final [OF "1.prems"(3) "1.prems"(4)] show ?case by simp
next
  case (2 env d e stream update_unit st found_num)
  from "2.prems"(1) have "u' = update_unit" by simp
  with index_in_range_final [OF "2.prems"(3) "2.prems"(4)] show ?case by simp
next
  case (3 env d block stream u st found_num)
  let ?skip = "keys_size (dict_struct d)"
  let ?keys = "extractKeys env (take ?skip block)"
  let ?cols = "fetched_columns_during_update u"
  let ?idx = "requested_keys_to_fetched_columns_during_update_index u"
  show ?case
  proof (cases "block = [] \<or> length block < ?skip")
    case True
    with 3(2) have "u' = u" by (auto simp: Let_def split: if_splits)
    with index_in_range_final [OF 3(4) 3(5)] show ?thesis by simp
  next
    case False
    obtain o1 cols1 where ibc:
      "insert_block_columns (request u) block ?skip (length ?keys) [0 ..< length ?cols] ?cols
         = (o1, cols1)"
      by (cases "insert_block_columns (request u) block ?skip (length ?keys)
                   [0 ..< length ?cols] ?cols")
    have len1: "length cols1 = length ?cols"
      by (rule insert_block_columns_length [OF ibc])
    show ?thesis
    proof (cases o1)
      case (Some e)
      with 3(2) False ibc have u': "u' = u\<lparr>fetched_columns_during_update := cols1\<rparr>"
        by (auto simp: Let_def)
      show ?thesis
      proof (intro allI impI conjI)
        fix key row i
        assume l: "Mapping.lookup (requested_keys_to_fetched_columns_during_update_index u') key
                     = Some row"
        with u' 3(5) show "key \<in> K" by simp
        assume f: "shouldFillResultColumnWithIndex (request u) i"
        from l u' 3(5) have "row < found_num" by simp
        also from 3(4) f have "found_num \<le> length (?cols ! i)" by simp
        also from insert_block_columns_grows [OF ibc] have "\<dots> \<le> length (cols1 ! i)" .
        finally show "row < length (fetched_columns_during_update u' ! i)"
          using u' by simp
      qed
    next
      case None
      let ?u1 = "u\<lparr>fetched_columns_during_update := cols1,
                    requested_keys_to_fetched_columns_during_update_index :=
                      index_fetched_keys ?keys found_num ?idx\<rparr>"
      from 3(2) False ibc None
      have rec: "read_stream env d stream ?u1 (st\<lparr>storage := insertColumnsForKeys env (storage st)
                    ?keys (drop ?skip block)\<rparr>) (found_num + length ?keys) = (outcome, u', st')"
        by (auto simp: Let_def)
      have a1: "length (fetched_columns_during_update ?u1) = attributesSize (request ?u1)"
        using len1 3(3) by simp
      have a2: "\<forall>i. shouldFillResultColumnWithIndex (request ?u1) i \<longrightarrow>
                  found_num + length ?keys \<le> length (fetched_columns_during_update ?u1 ! i)"
      proof (intro allI impI)
        fix i
        assume f: "shouldFillResultColumnWithIndex (request ?u1) i"
        then have i: "i < length ?cols"
          using 3(3) by (simp add: shouldFillResultColumnWithIndex_def)
        from ibc None have ok: "insert_block_columns (request u) block ?skip (length ?keys)
             [0 ..< length ?cols] ?cols = (None, cols1)" by simp
        from insert_block_columns_appends [OF ok, of i] i f
        have "length (?cols ! i) + length ?keys \<le> length (cols1 ! i)" by simp
        moreover from 3(4) f have "found_num \<le> length (?cols ! i)" by simp
        ultimately show "found_num + length ?keys
                           \<le> length (fetched_columns_during_update ?u1 ! i)"
          by simp
      qed
      have keys_K: "set ?keys \<subseteq> K" and rest_K: "set (source_keys env d stream) \<subseteq> K"
        using 3(6) by auto
      have a3: "\<forall>key row.
                  Mapping.lookup (requested_keys_to_fetched_columns_during_update_index ?u1) key
                    = Some row \<longrightarrow> row < found_num + length ?keys \<and> key \<in> K"
      proof (intro allI impI)
        fix key row
        assume "Mapping.lookup (requested_keys_to_fetched_columns_during_update_index ?u1) key
                  = Some row"
        then have "Mapping.lookup (index_fetched_keys ?keys found_num ?idx) key = Some row"
          by simp
        from lookup_index_fetched_keys [OF this] 3(5) keys_K
        show "row < found_num + length ?keys \<and> key \<in> K"
          by (fastforce intro: trans_less_add1)
      qed
      from False have ne: "block \<noteq> []" and wide: "\<not> length block < ?skip" by auto
      from 3(1) [OF ne refl wide refl refl refl refl ibc [symmetric] None rec a1 a2 a3 rest_K]
      show ?thesis by simp
    qed
  qed
qed

text \<open>
  C5, as the code has it. On a unit that starts with an empty index and empty output columns,
  \<^verbatim>\<open>update\<close> only adds index entries for keys that the external source returned for this
  refresh, and every entry points to a row inside each requested output column of the unit.
  The code does not compare the returned keys with the requested ones: the entries are keys of
  the unit's requested key set whenever the source returns only requested keys.
\<close>

theorem update_index_entries:
  assumes "update env d st u = (outcome, u', st')"
      and "requested_keys_to_fetched_columns_during_update_index u = Mapping.empty"
      and "fetched_columns_during_update u = makeAttributesResultColumns (request u)"
  shows "(\<forall>key row.
            Mapping.lookup (requested_keys_to_fetched_columns_during_update_index u') key
              = Some row \<longrightarrow>
            key \<in> set (source_keys env d (source_stream env d u))
            \<and> (\<forall>i. shouldFillResultColumnWithIndex (request u) i \<longrightarrow>
                   row < length (fetched_columns_during_update u' ! i)))
       \<and> (set (source_keys env d (source_stream env d u)) \<subseteq> requested_keys env d u \<longrightarrow>
            Mapping.keys (requested_keys_to_fetched_columns_during_update_index u')
              \<subseteq> requested_keys env d u)"
proof -
  have entries: "\<forall>key row.
      Mapping.lookup (requested_keys_to_fetched_columns_during_update_index u') key = Some row \<longrightarrow>
      key \<in> set (source_keys env d (source_stream env d u))
      \<and> (\<forall>i. shouldFillResultColumnWithIndex (request u) i \<longrightarrow>
             row < length (fetched_columns_during_update u' ! i))"
  proof (cases "system_clock_now env > backoff_end_time st")
    case False
    with assms(1) have "u' = u" by (auto simp: update_def)
    with assms(2) show ?thesis by simp
  next
    case True
    obtain o1 u1 st1 where
      r: "read_stream env d (source_stream env d u) u st 0 = (o1, u1, st1)"
      by (metis prod_cases3)
    from assms(1) True r have "u' = u1"
      by (auto simp: update_def Let_def split: option.splits if_splits prod.splits)
    moreover have "length (fetched_columns_during_update u) = attributesSize (request u)"
      using assms(3) by (simp add: makeAttributesResultColumns_def)
    moreover have "\<forall>i. shouldFillResultColumnWithIndex (request u) i \<longrightarrow>
                     0 \<le> length (fetched_columns_during_update u ! i)"
      by simp
    moreover have "\<forall>key row.
        Mapping.lookup (requested_keys_to_fetched_columns_during_update_index u) key = Some row
          \<longrightarrow> row < 0 \<and> key \<in> set (source_keys env d (source_stream env d u))"
      using assms(2) by simp
    ultimately show ?thesis
      using read_stream_index [OF r, of "set (source_keys env d (source_stream env d u))"]
      by blast
  qed
  then have "Mapping.keys (requested_keys_to_fetched_columns_during_update_index u')
               \<subseteq> set (source_keys env d (source_stream env d u))"
    by (auto simp: keys_dom_lookup)
  with entries show ?thesis by blast
qed

theorem update_index_entries_witness:
  "update (example_collaborators [Inr [[9], [91]]]) example_dictionary example_state example_unit =
     (None,
      example_unit\<lparr>fetched_columns_during_update := [[91]],
                   requested_keys_to_fetched_columns_during_update_index :=
                     Mapping.update 9 0 Mapping.empty\<rparr>,
      example_state\<lparr>storage := 1\<rparr>)
   \<and> requested_keys_to_fetched_columns_during_update_index example_unit = Mapping.empty
   \<and> fetched_columns_during_update example_unit
       = makeAttributesResultColumns (request example_unit)
   \<and> Mapping.lookup (Mapping.update (9 :: UInt64) (0 :: nat) Mapping.empty) 9 = Some 0
   \<and> shouldFillResultColumnWithIndex (request example_unit) 0
   \<and> (0 :: nat) < length ([[91 :: UInt64]] ! 0)
   \<and> set (source_keys (example_collaborators [Inr [[9], [91]]]) example_dictionary
            (source_stream (example_collaborators [Inr [[9], [91]]]) example_dictionary
               example_unit))
       \<subseteq> requested_keys (example_collaborators [Inr [[9], [91]]]) example_dictionary
           example_unit
   \<and> Mapping.keys (Mapping.update (9 :: UInt64) (0 :: nat) Mapping.empty)
       \<subseteq> requested_keys (example_collaborators [Inr [[9], [91]]]) example_dictionary
           example_unit"
proof -
  have fresh: "requested_keys_to_fetched_columns_during_update_index example_unit = Mapping.empty"
    "fetched_columns_during_update example_unit = makeAttributesResultColumns (request example_unit)"
    by (simp_all add: example_unit_def update_unit_simple_def)
  have fill: "shouldFillResultColumnWithIndex (request example_unit) 0"
    by (simp add: example_defs update_defs request_defs)
  have src: "set (source_keys (example_collaborators [Inr [[9], [91]]]) example_dictionary
            (source_stream (example_collaborators [Inr [[9], [91]]]) example_dictionary
               example_unit))
       \<subseteq> requested_keys (example_collaborators [Inr [[9], [91]]]) example_dictionary
           example_unit"
    by (simp add: example_defs update_defs requested_keys_def)
  from update_index_entries [OF example_update_ok fresh] src fill fresh example_update_ok
  show ?thesis by simp
qed

text \<open>
  A source that answers the request for key 9 with a row for key 7 puts key 7, which the unit
  did not request, into the index.
\<close>

theorem update_index_unrequested_key_counterexample:
  "Mapping.lookup
     (requested_keys_to_fetched_columns_during_update_index
        (fst (snd (update (example_collaborators [Inr [[7], [70]]]) example_dictionary
                     example_state example_unit)))) 7 = Some 0
   \<and> 7 \<notin> requested_keys (example_collaborators [Inr [[7], [70]]]) example_dictionary
             example_unit"
  by (simp add: example_defs update_defs request_defs column_defs requested_keys_def)

section \<open>The merge of a sync update\<close>

lemma for_each_attribute_result:
  "for_each_attribute r fill is cols = Inr out \<Longrightarrow> distinct is \<Longrightarrow>
   \<forall>i \<in> set is. i < length cols \<Longrightarrow>
   length out = length cols
   \<and> (\<forall>i \<in> set is. shouldFillResultColumnWithIndex r i \<longrightarrow> fill i (cols ! i) = Inr (out ! i))
   \<and> (\<forall>i. i \<notin> set is \<or> \<not> shouldFillResultColumnWithIndex r i \<longrightarrow> out ! i = cols ! i)"
proof (induction "is" arbitrary: cols)
  case Nil
  then show ?case by simp
next
  case (Cons j "is")
  show ?case
  proof (cases "shouldFillResultColumnWithIndex r j")
    case False
    with Cons.prems have "for_each_attribute r fill is cols = Inr out" by simp
    from Cons.IH [OF this] Cons.prems False show ?thesis by auto
  next
    case True
    with Cons.prems obtain c where
      c: "fill j (cols ! j) = Inr c" and
      rest: "for_each_attribute r fill is (cols[j := c]) = Inr out"
      by (auto split: sum.splits)
    from Cons.prems have j: "j < length cols" "j \<notin> set is" by auto
    from Cons.IH [OF rest] Cons.prems
    have ih: "length out = length cols"
      "\<forall>i \<in> set is. shouldFillResultColumnWithIndex r i \<longrightarrow>
         fill i (cols[j := c] ! i) = Inr (out ! i)"
      "\<forall>i. i \<notin> set is \<or> \<not> shouldFillResultColumnWithIndex r i \<longrightarrow> out ! i = cols[j := c] ! i"
      by auto
    from ih(3) j have outj: "out ! j = c" by simp
    have filled: "\<forall>i \<in> set (j # is). shouldFillResultColumnWithIndex r i \<longrightarrow>
                    fill i (cols ! i) = Inr (out ! i)"
    proof (intro ballI impI)
      fix i
      assume i: "i \<in> set (j # is)" and s: "shouldFillResultColumnWithIndex r i"
      show "fill i (cols ! i) = Inr (out ! i)"
      proof (cases "i = j")
        case True
        with c outj show ?thesis by simp
      next
        case False
        with i have "i \<in> set is" by simp
        with ih(2) s have "fill i (cols[j := c] ! i) = Inr (out ! i)" by blast
        with False show ?thesis by simp
      qed
    qed
    have kept: "\<forall>i. i \<notin> set (j # is) \<or> \<not> shouldFillResultColumnWithIndex r i \<longrightarrow>
                  out ! i = cols ! i"
    proof (intro allI impI)
      fix i
      assume a: "i \<notin> set (j # is) \<or> \<not> shouldFillResultColumnWithIndex r i"
      with True have ne: "i \<noteq> j" by auto
      from a have "i \<notin> set is \<or> \<not> shouldFillResultColumnWithIndex r i" by auto
      with ih(3) have "out ! i = cols[j := c] ! i" by blast
      with ne show "out ! i = cols ! i" by simp
    qed
    from ih(1) filled kept show ?thesis by blast
  qed
qed

lemma insert_merged_rows:
  "insert_merged from_storage in_cache during_update in_update provider keys key_index acc
     = Inr res \<Longrightarrow>
   length res = length acc + length keys
   \<and> (\<forall>n < length acc. res ! n = acc ! n)
   \<and> (\<forall>n < length keys.
         precedence_row from_storage in_cache during_update in_update provider
           (keys ! n) (key_index + n) = Inr (res ! (length acc + n)))"
proof (induction keys arbitrary: key_index acc)
  case Nil
  then show ?case by simp
next
  case (Cons key keys)
  let ?row = "precedence_row from_storage in_cache during_update in_update provider key key_index"
  from Cons.prems obtain v where
    v: "?row = Inr v" and
    rest: "insert_merged from_storage in_cache during_update in_update provider keys
             (Suc key_index) (acc @ [v]) = Inr res"
    by (auto simp: precedence_row_def insertFrom_def split: option.splits sum.splits if_splits)
  from Cons.IH [OF rest]
  have ih: "length res = length (acc @ [v]) + length keys"
    "\<forall>n < length (acc @ [v]). res ! n = (acc @ [v]) ! n"
    "\<forall>n < length keys.
       precedence_row from_storage in_cache during_update in_update provider
         (keys ! n) (Suc key_index + n) = Inr (res ! (length (acc @ [v]) + n))"
    by auto
  have head: "res ! length acc = v"
    using ih(2) by (metis length_append_singleton lessI nth_append_length)
  have old: "\<forall>n < length acc. res ! n = acc ! n"
    using ih(2) by (simp add: nth_append)
  have rows: "\<forall>n < length (key # keys).
         precedence_row from_storage in_cache during_update in_update provider
           ((key # keys) ! n) (key_index + n) = Inr (res ! (length acc + n))"
  proof (intro allI impI)
    fix n
    assume n: "n < length (key # keys)"
    show "precedence_row from_storage in_cache during_update in_update provider
           ((key # keys) ! n) (key_index + n) = Inr (res ! (length acc + n))"
    proof (cases n)
      case 0
      with v head show ?thesis by simp
    next
      case (Suc m)
      with n ih(3) show ?thesis by simp
    qed
  qed
  from ih(1) old rows show ?case by simp
qed

lemma aggregateColumns_rows:
  assumes "aggregateColumns keys r from_storage in_cache during_update in_update providers
             = Inr aggregated"
  shows "length aggregated = attributesSize r
       \<and> (\<forall>i. shouldFillResultColumnWithIndex r i \<longrightarrow>
            length (aggregated ! i) = length keys
            \<and> (\<forall>n < length keys.
                 precedence_row (from_storage ! i) in_cache (during_update ! i) in_update
                   (providers ! i) (keys ! n) n = Inr (aggregated ! i ! n)))"
proof -
  define fill where "fill = (\<lambda>fetch_request_index aggregated_column.
          if fetch_request_index < length from_storage
             \<and> fetch_request_index < length during_update
             \<and> fetch_request_index < length providers
          then insert_merged (from_storage ! fetch_request_index) in_cache
                 (during_update ! fetch_request_index) in_update
                 (providers ! fetch_request_index) keys 0 aggregated_column
          else Inl Undefined_behaviour)"
  from assms have f: "for_each_attribute r fill [0 ..< attributesSize r]
                        (replicate (attributesSize r) []) = Inr aggregated"
    by (simp add: aggregateColumns_def makeAttributesResultColumns_def fill_def)
  from for_each_attribute_result [OF f]
  have len: "length aggregated = attributesSize r"
    and each: "\<forall>i \<in> set [0 ..< attributesSize r]. shouldFillResultColumnWithIndex r i \<longrightarrow>
             fill i (replicate (attributesSize r) [] ! i) = Inr (aggregated ! i)"
    by auto
  show ?thesis
  proof (intro conjI allI impI)
    show "length aggregated = attributesSize r" by (rule len)
  next
    fix i
    assume s: "shouldFillResultColumnWithIndex r i"
    then have i: "i < attributesSize r" by (simp add: shouldFillResultColumnWithIndex_def)
    with each s have "fill i [] = Inr (aggregated ! i)" by simp
    then have m: "insert_merged (from_storage ! i) in_cache (during_update ! i) in_update
                 (providers ! i) keys 0 [] = Inr (aggregated ! i)"
      by (auto simp: fill_def split: if_splits)
    from insert_merged_rows [OF m]
    show "length (aggregated ! i) = length keys" by simp
    fix n
    assume "n < length keys"
    with insert_merged_rows [OF m]
    show "precedence_row (from_storage ! i) in_cache (during_update ! i) in_update
                   (providers ! i) (keys ! n) n = Inr (aggregated ! i ! n)"
      by simp
  qed
qed

lemma getColumnsImpl_sync_merge:
  assumes "getColumnsImpl env d st attribute_names key_columns keys default_values_columns
             = (Inr out, st')"
      and "sync_update_branch d keys (storage_lookup env d st attribute_names keys)"
  shows "\<exists>update_unit' providers aggregated.
           update env d (state_after_lookup env d st attribute_names keys)
             (make_update_unit d key_columns (storage_lookup env d st attribute_names keys)
                (DictionaryStorageFetchRequest (dict_struct d) attribute_names))
             = (None, update_unit', st')
         \<and> make_default_value_providers
             (DictionaryStorageFetchRequest (dict_struct d) attribute_names)
             (attributes (dict_struct d)) default_values_columns 0 [] = Inr providers
         \<and> filterRequestedColumns
             (DictionaryStorageFetchRequest (dict_struct d) attribute_names) aggregated = Inr out
         \<and> (\<forall>i n. shouldFillResultColumnWithIndex
                     (DictionaryStorageFetchRequest (dict_struct d) attribute_names) i
                   \<longrightarrow> n < length keys \<longrightarrow>
                 precedence_row
                   (fetched_columns (storage_lookup env d st attribute_names keys) ! i)
                   (found_keys_to_fetched_columns_index
                      (storage_lookup env d st attribute_names keys))
                   (fetched_columns_during_update update_unit' ! i)
                   (requested_keys_to_fetched_columns_during_update_index update_unit')
                   (providers ! i) (keys ! n) n
                 = Inr (aggregated ! i ! n))"
proof -
  let ?r = "DictionaryStorageFetchRequest (dict_struct d) attribute_names"
  let ?fr = "storage_lookup env d st attribute_names keys"
  let ?st1 = "state_after_lookup env d st attribute_names keys"
  let ?u = "make_update_unit d key_columns ?fr ?r"
  obtain fr s1 where f: "fetchColumnsForKeys env (storage st) keys ?r = (fr, s1)"
    by (cases "fetchColumnsForKeys env (storage st) keys ?r")
  then have fr: "?fr = fr" and st1: "?st1 = st\<lparr>storage := s1\<rparr>"
    by (simp_all add: storage_lookup_def state_after_lookup_def)
  obtain finished u1 st2 where u: "update env d ?st1 ?u = (finished, u1, st2)"
    by (metis prod_cases3)
  from assms(2) fr
  have sync: "\<not> (not_found_keys_size keys fr = 0 \<and> expired_keys_size fr = 0)"
    "\<not> (not_found_keys_size keys fr = 0 \<and> expired_keys_size fr > 0 \<and> allow_read_expired_keys d)"
    by (simp_all add: sync_update_branch_def)
  from assms(1) f sync u fr st1 obtain providers aggregated where
    fin: "finished = None" and st2: "st2 = st'" and
    p: "make_default_value_providers ?r (attributes (dict_struct d)) default_values_columns 0 []
          = Inr providers" and
    a: "aggregateColumns keys ?r (fetched_columns fr) (found_keys_to_fetched_columns_index fr)
          (fetched_columns_during_update u1)
          (requested_keys_to_fetched_columns_during_update_index u1) providers = Inr aggregated" and
    o: "filterRequestedColumns ?r aggregated = Inr out"
    by (auto simp: getColumnsImpl_def Let_def tryPushToUpdateQueueOrThrow_def
                   waitForCurrentUpdateFinish_def
             split: if_splits sum.splits option.splits prod.splits)
  from aggregateColumns_rows [OF a] fr
  have rows: "\<forall>i n. shouldFillResultColumnWithIndex ?r i \<longrightarrow> n < length keys \<longrightarrow>
                 precedence_row (fetched_columns ?fr ! i)
                   (found_keys_to_fetched_columns_index ?fr)
                   (fetched_columns_during_update u1 ! i)
                   (requested_keys_to_fetched_columns_during_update_index u1)
                   (providers ! i) (keys ! n) n
                 = Inr (aggregated ! i ! n)"
    by simp
  from u fin st2 p o rows show ?thesis by blast
qed

text \<open>
  When \<^verbatim>\<open>getColumnsImpl\<close> takes its last branch, the sync update, and returns, the worker's
  update of the query's unit has finished without error, and the result is the projection of
  merged columns whose row for each input key, in every requested attribute, is chosen by
  precedence: the row of the storage when the key is in the index of the keys found there,
  else the row fetched during the update when the key is in the unit's index, else the value
  of the provider that the loop over the attributes built for the attribute. The index of the
  expired keys takes no part in this merge. When the query does not take that branch, no
  result of an update is merged: the result is what the storage fetched for the found and the
  expired keys.
\<close>

lemma getColumnsImpl_merge_precedence:
  assumes "getColumnsImpl env d st attribute_names key_columns keys default_values_columns
             = (Inr out, st')"
  shows "(sync_update_branch d keys (storage_lookup env d st attribute_names keys) \<longrightarrow>
          (\<exists>update_unit' providers aggregated.
             update env d (state_after_lookup env d st attribute_names keys)
               (make_update_unit d key_columns (storage_lookup env d st attribute_names keys)
                  (DictionaryStorageFetchRequest (dict_struct d) attribute_names))
               = (None, update_unit', st')
           \<and> make_default_value_providers
               (DictionaryStorageFetchRequest (dict_struct d) attribute_names)
               (attributes (dict_struct d)) default_values_columns 0 [] = Inr providers
           \<and> filterRequestedColumns
               (DictionaryStorageFetchRequest (dict_struct d) attribute_names) aggregated
               = Inr out
           \<and> (\<forall>i n. shouldFillResultColumnWithIndex
                       (DictionaryStorageFetchRequest (dict_struct d) attribute_names) i
                     \<longrightarrow> n < length keys \<longrightarrow>
                   precedence_row
                     (fetched_columns (storage_lookup env d st attribute_names keys) ! i)
                     (found_keys_to_fetched_columns_index
                        (storage_lookup env d st attribute_names keys))
                     (fetched_columns_during_update update_unit' ! i)
                     (requested_keys_to_fetched_columns_during_update_index update_unit')
                     (providers ! i) (keys ! n) n
                   = Inr (aggregated ! i ! n))))
       \<and> (\<not> sync_update_branch d keys (storage_lookup env d st attribute_names keys) \<longrightarrow>
          columns_from_storage env keys
            (DictionaryStorageFetchRequest (dict_struct d) attribute_names)
            (storage_lookup env d st attribute_names keys) = Inr out)"
proof (intro conjI impI)
  assume "sync_update_branch d keys (storage_lookup env d st attribute_names keys)"
  from getColumnsImpl_sync_merge [OF assms this]
  show "\<exists>update_unit' providers aggregated.
             update env d (state_after_lookup env d st attribute_names keys)
               (make_update_unit d key_columns (storage_lookup env d st attribute_names keys)
                  (DictionaryStorageFetchRequest (dict_struct d) attribute_names))
               = (None, update_unit', st')
           \<and> make_default_value_providers
               (DictionaryStorageFetchRequest (dict_struct d) attribute_names)
               (attributes (dict_struct d)) default_values_columns 0 [] = Inr providers
           \<and> filterRequestedColumns
               (DictionaryStorageFetchRequest (dict_struct d) attribute_names) aggregated
               = Inr out
           \<and> (\<forall>i n. shouldFillResultColumnWithIndex
                       (DictionaryStorageFetchRequest (dict_struct d) attribute_names) i
                     \<longrightarrow> n < length keys \<longrightarrow>
                   precedence_row
                     (fetched_columns (storage_lookup env d st attribute_names keys) ! i)
                     (found_keys_to_fetched_columns_index
                        (storage_lookup env d st attribute_names keys))
                     (fetched_columns_during_update update_unit' ! i)
                     (requested_keys_to_fetched_columns_during_update_index update_unit')
                     (providers ! i) (keys ! n) n
                   = Inr (aggregated ! i ! n))" .
next
  let ?r = "DictionaryStorageFetchRequest (dict_struct d) attribute_names"
  assume no: "\<not> sync_update_branch d keys (storage_lookup env d st attribute_names keys)"
  obtain fr s1 where f: "fetchColumnsForKeys env (storage st) keys ?r = (fr, s1)"
    by (cases "fetchColumnsForKeys env (storage st) keys ?r")
  then have fr: "storage_lookup env d st attribute_names keys = fr"
    by (simp add: storage_lookup_def)
  from no fr have "(not_found_keys_size keys fr = 0 \<and> expired_keys_size fr = 0)
      \<or> (not_found_keys_size keys fr = 0 \<and> expired_keys_size fr > 0
          \<and> allow_read_expired_keys d)"
    by (auto simp: sync_update_branch_def)
  with assms f have "columns_from_storage env keys ?r fr = Inr out"
    by (auto simp: getColumnsImpl_def Let_def tryPushToUpdateQueueOrThrow_def
             split: if_splits sum.splits prod.splits)
  with fr show "columns_from_storage env keys ?r
                  (storage_lookup env d st attribute_names keys) = Inr out"
    by simp
qed

lemma example_lookup:
  "storage_lookup (example_collaborators stream) example_dictionary example_state [''a''] [9]
     = example_fetch (DictionaryStorageFetchRequest (dict_struct example_dictionary) [''a''])"
  "state_after_lookup (example_collaborators stream) example_dictionary example_state [''a''] [9]
     = example_state"
  by (simp_all add: storage_lookup_def state_after_lookup_def example_collaborators_def
        example_state_def)

lemma example_getColumnsImpl:
  "getColumnsImpl (example_collaborators [Inr [[9], [91]]]) example_dictionary example_state
     [''a''] [[9]] [9] [Some [7]] = (Inr [[91]], example_state\<lparr>storage := 1\<rparr>)"
  by (simp add: example_defs pipeline_defs update_defs request_defs column_defs)

lemma example_make_update_unit:
  "make_update_unit example_dictionary [[9]]
     (example_fetch (DictionaryStorageFetchRequest (dict_struct example_dictionary) [''a'']))
     (DictionaryStorageFetchRequest (dict_struct example_dictionary) [''a'']) = example_unit"
  by (simp add: make_update_unit_def example_dictionary_def example_fetch_def example_unit_def)

text \<open>
  C1, on the dictionary with the attributes \<open>a\<close> and \<open>b\<close>. The query asks for \<open>b\<close> and \<open>a\<close>, in
  this order, for key 7, and passes the default 100 for \<open>b\<close> and the default 200 for \<open>a\<close>. The
  key is absent from the storage, so the query performs a sync update, and the source has no
  row for it: both rows of the output are defaults. The loop that builds the providers pairs
  \<^verbatim>\<open>default_values_columns\<close> with the requested attributes in the order of the schema, not of
  the query: the provider of \<open>a\<close> holds the column that the caller passed for \<open>b\<close>, and the
  output has 200 for \<open>b\<close> and 100 for \<open>a\<close>. With the attributes asked in the order of the
  schema each one gets its own default.
\<close>

theorem getColumns_default_of_other_attribute:
  "getColumns example_empty_collaborators example_two_attributes example_empty_state
     [''b'', ''a''] [(), ()] [[7]] [()] [Some [100], Some [200]]
     = (Inr [[200], [100]], example_empty_state)
   \<and> sync_update_branch example_two_attributes [7]
       (storage_lookup example_empty_collaborators example_two_attributes
          example_empty_state [''b'', ''a''] [7])
   \<and> make_default_value_providers
       (DictionaryStorageFetchRequest (dict_struct example_two_attributes) [''b'', ''a''])
       (attributes (dict_struct example_two_attributes)) [Some [100], Some [200]] 0 []
     = Inr [\<lparr>default_value = 1, default_values_column = Some [100]\<rparr>,
            \<lparr>default_value = 2, default_values_column = Some [200]\<rparr>]
   \<and> getColumns example_empty_collaborators example_two_attributes example_empty_state
       [''a'', ''b''] [(), ()] [[7]] [()] [Some [100], Some [200]]
     = (Inr [[100], [200]], example_empty_state)"
  by (simp add: example_two_attributes_def example_empty_collaborators_def
        example_empty_state_def pipeline_defs update_defs request_defs column_defs
        sync_update_branch_def storage_lookup_def)

section \<open>One row per key\<close>

lemma index_of_Some: "index_of x xs = Some i \<Longrightarrow> i < length xs \<and> xs ! i = x"
  by (induction xs arbitrary: i) (auto split: if_splits)

lemma index_of_None: "index_of x xs = None \<longleftrightarrow> x \<notin> set xs"
  by (induction xs) auto

lemma filterRequestedColumns_columns:
  assumes "filterRequestedColumns r cols = Inr out"
  shows "\<forall>c \<in> set out. \<exists>i. shouldFillResultColumnWithIndex r i \<and> c = cols ! i"
proof
  fix c
  assume "c \<in> set out"
  with assms obtain n i where n: "n \<in> set (requested_names r)"
    and i: "index_of n (schema_names r) = Some i" and c: "c = cols ! i"
    by (auto simp: filterRequestedColumns_def List.map_filter_def split: if_splits)
  from index_of_Some [OF i] n
  have "shouldFillResultColumnWithIndex r i"
    by (simp add: shouldFillResultColumnWithIndex_def attributesSize_def containsAttribute_def)
  with c show "\<exists>i. shouldFillResultColumnWithIndex r i \<and> c = cols ! i" by blast
qed

lemma filterRequestedColumns_length:
  assumes "filterRequestedColumns r cols = Inr out"
  shows "length out = length (filter (\<lambda>n. n \<in> set (schema_names r)) (requested_names r))"
proof -
  have "\<And>ns. length (List.map_filter
                  (\<lambda>n. map_option (\<lambda>i. cols ! i) (index_of n (schema_names r))) ns)
        = length (filter (\<lambda>n. n \<in> set (schema_names r)) ns)"
  proof -
    fix ns
    show "length (List.map_filter
                  (\<lambda>n. map_option (\<lambda>i. cols ! i) (index_of n (schema_names r))) ns)
        = length (filter (\<lambda>n. n \<in> set (schema_names r)) ns)"
      by (induction ns) (auto simp: List.map_filter_def index_of_None)
  qed
  with assms show ?thesis
    by (auto simp: filterRequestedColumns_def split: if_splits)
qed

lemma insert_in_order_of_keys_length:
  "insert_in_order_of_keys fetched_column found expired keys acc = Inr res \<Longrightarrow>
   length res = length acc
     + length (filter (\<lambda>key. key \<in> Mapping.keys expired \<union> Mapping.keys found) keys)"
proof (induction keys arbitrary: acc)
  case Nil
  then show ?case by simp
next
  case (Cons key keys)
  show ?case
  proof (cases "Mapping.lookup expired key")
    case (Some row)
    with Cons.prems obtain c where
      c: "insertFrom acc fetched_column row = Inr c" and
      rest: "insert_in_order_of_keys fetched_column found expired keys c = Inr res"
      by (auto split: sum.splits)
    from c have "length c = Suc (length acc)"
      by (auto simp: insertFrom_def split: if_splits)
    moreover from Some have "key \<in> Mapping.keys expired"
      by (auto simp: keys_dom_lookup)
    ultimately show ?thesis using Cons.IH [OF rest] by simp
  next
    case None
    note ne = this
    then have nk: "key \<notin> Mapping.keys expired" by (auto simp: keys_dom_lookup)
    show ?thesis
    proof (cases "Mapping.lookup found key")
      case (Some row)
      with Cons.prems ne obtain c where
        c: "insertFrom acc fetched_column row = Inr c" and
        rest: "insert_in_order_of_keys fetched_column found expired keys c = Inr res"
        by (auto split: sum.splits)
      from c have "length c = Suc (length acc)"
        by (auto simp: insertFrom_def split: if_splits)
      moreover from Some have "key \<in> Mapping.keys found"
        by (auto simp: keys_dom_lookup)
      ultimately show ?thesis using Cons.IH [OF rest] by simp
    next
      case None
      then have "key \<notin> Mapping.keys found" by (auto simp: keys_dom_lookup)
      moreover from Cons.prems ne None
      have "insert_in_order_of_keys fetched_column found expired keys acc = Inr res" by simp
      ultimately show ?thesis using Cons.IH nk by simp
    qed
  qed
qed

lemma all_keys_classified:
  assumes ok: "fetch_result_ok keys r fr"
      and small: "length keys < 2 ^ 64"
      and nf: "not_found_keys_size keys fr = 0"
  shows "Mapping.size (found_keys_to_fetched_columns_index fr)
           + Mapping.size (expired_keys_to_fetched_columns_index fr) = length keys"
    and "distinct keys \<Longrightarrow>
           Mapping.keys (expired_keys_to_fetched_columns_index fr)
             \<union> Mapping.keys (found_keys_to_fetched_columns_index fr) = set keys"
proof -
  let ?F = "Mapping.keys (found_keys_to_fetched_columns_index fr)"
  let ?E = "Mapping.keys (expired_keys_to_fetched_columns_index fr)"
  from ok have sub: "?F \<subseteq> set keys" "?E \<subseteq> set keys" and dis: "?F \<inter> ?E = {}"
    by (simp_all add: fetch_result_ok_def)
  then have fin: "finite ?F" "finite ?E" by (auto intro: finite_subset)
  then have sz: "Mapping.size (found_keys_to_fetched_columns_index fr) = card ?F"
    "Mapping.size (expired_keys_to_fetched_columns_index fr) = card ?E"
    by (simp_all add: Mapping.size_def)
  have un: "card ?F + card ?E = card (?E \<union> ?F)"
    using fin dis by (metis card_Un_disjoint inf_commute add.commute)
  also have "\<dots> \<le> card (set keys)"
    using sub by (intro card_mono) auto
  also have "\<dots> \<le> length keys" by (rule card_length)
  finally have le: "card ?F + card ?E \<le> length keys" .
  from nf have "(of_nat (length keys) :: 64 word) = of_nat (card ?E + card ?F)"
    by (simp add: not_found_keys_size_def expired_keys_size_def found_keys_size_def sz)
  then have "take_bit 64 (length keys) = take_bit 64 (card ?E + card ?F)"
    unfolding word_of_nat_eq_iff by simp
  moreover have "take_bit 64 (length keys) = length keys"
    using small by (simp add: take_bit_nat_eq_self)
  moreover have "take_bit 64 (card ?E + card ?F) = card ?E + card ?F"
    using small le by (simp add: take_bit_nat_eq_self)
  ultimately have eq: "length keys = card ?E + card ?F" by simp
  with sz show "Mapping.size (found_keys_to_fetched_columns_index fr)
           + Mapping.size (expired_keys_to_fetched_columns_index fr) = length keys"
    by simp
  assume "distinct keys"
  then have "card (set keys) = length keys" by (rule distinct_card)
  with eq un have "card (?E \<union> ?F) = card (set keys)" by simp
  moreover have "?E \<union> ?F \<subseteq> set keys" using sub by auto
  ultimately show "?E \<union> ?F = set keys"
    by (intro card_subset_eq) auto
qed

lemma columns_from_storage_lengths:
  assumes c: "columns_from_storage env keys r fr = Inr out"
      and ok: "fetch_result_ok keys r fr"
      and small: "length keys < 2 ^ 64"
      and nf: "not_found_keys_size keys fr = 0"
      and dist: "distinct keys"
  shows "\<forall>c \<in> set out. length c = length keys"
proof (cases "returnsFetchedColumnsInOrderOfRequestedKeys env")
  case True
  with c have f: "filterRequestedColumns r (fetched_columns fr) = Inr out"
    by (simp add: columns_from_storage_def)
  show ?thesis
  proof
    fix col
    assume "col \<in> set out"
    with filterRequestedColumns_columns [OF f] obtain i where
      i: "shouldFillResultColumnWithIndex r i" and col: "col = fetched_columns fr ! i"
      by blast
    from i have "i < attributesSize r" by (simp add: shouldFillResultColumnWithIndex_def)
    with ok i col have "length col =
        Mapping.size (found_keys_to_fetched_columns_index fr)
        + Mapping.size (expired_keys_to_fetched_columns_index fr)"
      by (simp add: fetch_result_ok_def)
    with all_keys_classified(1) [OF ok small nf] show "length col = length keys" by simp
  qed
next
  case False
  define fill where "fill = (\<lambda>fetch_request_index aggregated_column.
          if fetch_request_index < length (fetched_columns fr)
          then insert_in_order_of_keys (fetched_columns fr ! fetch_request_index)
                 (found_keys_to_fetched_columns_index fr)
                 (expired_keys_to_fetched_columns_index fr) keys aggregated_column
          else Inl Undefined_behaviour)"
  from c False obtain aggregated where
    a: "for_each_attribute r fill [0 ..< attributesSize r] (replicate (attributesSize r) [])
          = Inr aggregated" and
    f: "filterRequestedColumns r aggregated = Inr out"
    by (auto simp: columns_from_storage_def aggregateColumnsInOrderOfKeys_def
                   makeAttributesResultColumns_def fill_def split: sum.splits)
  from for_each_attribute_result [OF a]
  have each: "\<forall>i \<in> set [0 ..< attributesSize r]. shouldFillResultColumnWithIndex r i \<longrightarrow>
             fill i (replicate (attributesSize r) [] ! i) = Inr (aggregated ! i)"
    by auto
  have all: "filter (\<lambda>key. key \<in> Mapping.keys (expired_keys_to_fetched_columns_index fr)
                              \<union> Mapping.keys (found_keys_to_fetched_columns_index fr)) keys
             = keys"
    using all_keys_classified(2) [OF ok small nf dist] by simp
  show ?thesis
  proof
    fix col
    assume "col \<in> set out"
    with filterRequestedColumns_columns [OF f] obtain i where
      i: "shouldFillResultColumnWithIndex r i" and col: "col = aggregated ! i"
      by blast
    from i have "i < attributesSize r" by (simp add: shouldFillResultColumnWithIndex_def)
    with each i have "fill i [] = Inr (aggregated ! i)" by simp
    then have "insert_in_order_of_keys (fetched_columns fr ! i)
                 (found_keys_to_fetched_columns_index fr)
                 (expired_keys_to_fetched_columns_index fr) keys [] = Inr (aggregated ! i)"
      by (auto simp: fill_def split: if_splits)
    from insert_in_order_of_keys_length [OF this] all col
    show "length col = length keys" by simp
  qed
qed

text \<open>
  C6. For a key list without duplicates (shorter than \<open>2 ^ 64\<close>, as every array is), on a
  lookup result that meets the storage's contract, whatever \<^verbatim>\<open>getColumnsImpl\<close> returns has
  one column per requested attribute of the schema, and each column has exactly one row per
  input key. This holds in every branch: all keys found, async refresh and sync update.
\<close>

theorem getColumnsImpl_one_row_per_key:
  assumes "getColumnsImpl env d st attribute_names key_columns keys default_values_columns
             = (Inr out, st')"
      and "distinct keys"
      and "length keys < 2 ^ 64"
      and "fetch_result_ok keys (DictionaryStorageFetchRequest (dict_struct d) attribute_names)
             (storage_lookup env d st attribute_names keys)"
  shows "(\<forall>c \<in> set out. length c = length keys)
       \<and> length out = length (filter (\<lambda>n. n \<in> set (map name (attributes (dict_struct d))))
                                attribute_names)"
proof -
  let ?r = "DictionaryStorageFetchRequest (dict_struct d) attribute_names"
  obtain fr s1 where f: "fetchColumnsForKeys env (storage st) keys ?r = (fr, s1)"
    by (cases "fetchColumnsForKeys env (storage st) keys ?r")
  then have fr: "storage_lookup env d st attribute_names keys = fr"
    by (simp add: storage_lookup_def)
  with assms(4) have ok: "fetch_result_ok keys ?r fr" by simp
  have names: "schema_names ?r = map name (attributes (dict_struct d))"
    "requested_names ?r = attribute_names"
    by (simp_all add: DictionaryStorageFetchRequest_def)
  show ?thesis
  proof (cases "not_found_keys_size keys fr = 0
                \<and> (expired_keys_size fr = 0 \<or> allow_read_expired_keys d)")
    case True
    with assms(1) f have c: "columns_from_storage env keys ?r fr = Inr out"
      by (auto simp: getColumnsImpl_def Let_def tryPushToUpdateQueueOrThrow_def
                     word_greater_zero_iff
               split: if_splits sum.splits prod.splits)
    from True have nf: "not_found_keys_size keys fr = 0" by simp
    have "\<forall>c \<in> set out. length c = length keys"
      by (rule columns_from_storage_lengths [OF c ok assms(3) nf assms(2)])
    moreover have "filterRequestedColumns ?r (fetched_columns fr) = Inr out
                   \<or> (\<exists>a. filterRequestedColumns ?r a = Inr out)"
      using c by (auto simp: columns_from_storage_def split: if_splits sum.splits)
    then have "length out = length (filter (\<lambda>n. n \<in> set (schema_names ?r)) (requested_names ?r))"
      using filterRequestedColumns_length by blast
    ultimately show ?thesis using names by simp
  next
    case False
    with assms(1) f obtain aggregated from_storage in_cache during_update in_update providers
      where a: "aggregateColumns keys ?r from_storage in_cache during_update in_update providers
                  = Inr aggregated" and
      o: "filterRequestedColumns ?r aggregated = Inr out"
      by (auto simp: getColumnsImpl_def Let_def tryPushToUpdateQueueOrThrow_def
                     waitForCurrentUpdateFinish_def word_greater_zero_iff
               split: if_splits sum.splits option.splits prod.splits)
    have "\<forall>c \<in> set out. length c = length keys"
    proof
      fix col
      assume "col \<in> set out"
      with filterRequestedColumns_columns [OF o] obtain i where
        "shouldFillResultColumnWithIndex ?r i" "col = aggregated ! i"
        by blast
      with aggregateColumns_rows [OF a] show "length col = length keys" by simp
    qed
    with filterRequestedColumns_length [OF o] names show ?thesis by simp
  qed
qed

lemma example_fetch_result_ok:
  "fetch_result_ok [9] (DictionaryStorageFetchRequest (dict_struct example_dictionary) [''a''])
     (example_fetch (DictionaryStorageFetchRequest (dict_struct example_dictionary) [''a'']))"
  by (simp add: fetch_result_ok_def example_fetch_def example_dictionary_def request_defs
        Mapping.size_def)

lemma example_hierarchy_getColumnsImpl:
  "getColumnsImpl example_hierarchy_collaborators example_hierarchy example_hierarchy_state
     [''parent''] [[]] [1, 2] [None] = (Inr [[2, 1]], example_hierarchy_state)"
  by (simp add: hierarchy_example_defs pipeline_defs request_defs example_parent_def)

lemma example_hierarchy_fetch_result_ok:
  "fetch_result_ok [1, 2]
     (DictionaryStorageFetchRequest (dict_struct example_hierarchy) [''parent''])
     (storage_lookup example_hierarchy_collaborators example_hierarchy example_hierarchy_state
        [''parent''] [1, 2])"
  by (simp add: fetch_result_ok_def storage_lookup_def hierarchy_example_defs request_defs
        Mapping.size_def)

theorem getColumnsImpl_one_row_per_key_witness:
  "getColumnsImpl (example_collaborators [Inr [[9], [91]]]) example_dictionary example_state
     [''a''] [[9]] [9] [Some [7]] = (Inr [[91]], example_state\<lparr>storage := 1\<rparr>)
   \<and> distinct [9 :: UInt64]
   \<and> length [9 :: UInt64] < 2 ^ 64
   \<and> fetch_result_ok [9] (DictionaryStorageFetchRequest (dict_struct example_dictionary) [''a''])
       (storage_lookup (example_collaborators [Inr [[9], [91]]]) example_dictionary
          example_state [''a''] [9])
   \<and> length [91 :: UInt64] = length [9 :: UInt64]
   \<and> length [[91 :: UInt64]] = 1
   \<and> getColumnsImpl example_hierarchy_collaborators example_hierarchy example_hierarchy_state
       [''parent''] [[]] [1, 2] [None] = (Inr [[2, 1]], example_hierarchy_state)
   \<and> distinct [1 :: UInt64, 2]
   \<and> fetch_result_ok [1, 2]
       (DictionaryStorageFetchRequest (dict_struct example_hierarchy) [''parent''])
       (storage_lookup example_hierarchy_collaborators example_hierarchy example_hierarchy_state
          [''parent''] [1, 2])
   \<and> length [2 :: UInt64, 1] = length [1 :: UInt64, 2]"
proof -
  have d1: "distinct [9 :: UInt64]" and s1: "length [9 :: UInt64] < 2 ^ 64" by simp_all
  have ok1: "fetch_result_ok [9]
               (DictionaryStorageFetchRequest (dict_struct example_dictionary) [''a''])
               (storage_lookup (example_collaborators [Inr [[9], [91]]]) example_dictionary
                  example_state [''a''] [9])"
    unfolding example_lookup by (rule example_fetch_result_ok)
  have d2: "distinct [1 :: UInt64, 2]" and s2: "length [1 :: UInt64, 2] < 2 ^ 64" by simp_all
  from getColumnsImpl_one_row_per_key [OF example_getColumnsImpl d1 s1 ok1]
       getColumnsImpl_one_row_per_key
         [OF example_hierarchy_getColumnsImpl d2 s2 example_hierarchy_fetch_result_ok]
       example_getColumnsImpl example_hierarchy_getColumnsImpl ok1
       example_hierarchy_fetch_result_ok
  show ?thesis by simp
qed

section \<open>Expired keys in \<^verbatim>\<open>hasKeys\<close>\<close>

lemma example_hasKeys_lookup:
  "storage_lookup (example_collaborators stream) example_dictionary example_state [] [9]
     = example_fetch (DictionaryStorageFetchRequest (dict_struct example_dictionary) [])"
  by (simp add: storage_lookup_def example_collaborators_def example_state_def)

text \<open>
  C2, on the first example. The only key of the query is expired in the storage and expired
  keys may not be read, so the lookup is neither all found nor expired-only with expired reads
  allowed. \<^verbatim>\<open>getColumns\<close> submits the unit and waits: the worker asks the source and writes
  the storage. \<^verbatim>\<open>hasKeys\<close> guards its sync update with \<^verbatim>\<open>not_found_keys_size > 0\<close>, submits
  nothing, leaves the state as it was and answers 0 for the key.
\<close>

theorem hasKeys_expired_key_skips_update:
  "sync_update_branch example_dictionary [9]
     (storage_lookup (example_collaborators [Inr [[9], [91]]]) example_dictionary example_state
        [] [9])
   \<and> hasKeys (example_collaborators [Inr [[9], [91]]]) example_dictionary example_state
       [[9]] [()] = (Inr [0], example_state)
   \<and> getColumns (example_collaborators [Inr [[9], [91]]]) example_dictionary example_state
       [''a''] [()] [[9]] [()] [Some [7]] = (Inr [[91]], example_state\<lparr>storage := 1\<rparr>)"
proof -
  have "sync_update_branch example_dictionary [9]
          (example_fetch (DictionaryStorageFetchRequest (dict_struct example_dictionary) []))"
    by (simp add: sync_update_branch_def example_dictionary_def example_fetch_def
          not_found_keys_size_def expired_keys_size_def found_keys_size_def Mapping.size_def)
  with example_hasKeys example_getColumns show ?thesis
    unfolding example_hasKeys_lookup by simp
qed

text \<open>
  C3, on the first example. \<^verbatim>\<open>getColumns\<close> fetches key 9 during its sync update (the unit's
  index has the key, the output row is the fetched value 91), while \<^verbatim>\<open>hasKeys\<close> on the same
  key answers 0.
\<close>

theorem hasKeys_disagrees_with_getColumns:
  "fst (hasKeys (example_collaborators [Inr [[9], [91]]]) example_dictionary example_state
          [[9]] [()]) = Inr [0]
   \<and> fst (getColumns (example_collaborators [Inr [[9], [91]]]) example_dictionary
            example_state [''a''] [()] [[9]] [()] [Some [7]]) = Inr [[91]]
   \<and> Mapping.lookup
       (requested_keys_to_fetched_columns_during_update_index
          (fst (snd (update (example_collaborators [Inr [[9], [91]]]) example_dictionary
                       (state_after_lookup (example_collaborators [Inr [[9], [91]]])
                          example_dictionary example_state [''a''] [9])
                       (make_update_unit example_dictionary [[9]]
                          (storage_lookup (example_collaborators [Inr [[9], [91]]])
                             example_dictionary example_state [''a''] [9])
                          (DictionaryStorageFetchRequest (dict_struct example_dictionary)
                             [''a'']))))))
       9 = Some 0"
  unfolding example_lookup example_make_update_unit example_update_ok example_hasKeys
    example_getColumns
  by simp

section \<open>The ancestor search\<close>



lemma isIn_pass_single:
  "isIn_pass null_value' (Constant ancestor) [current] [0xFF] [previous] 0 0 0 =
     (if current = null_value' then Inr ([0], [previous], 0)
      else if current = ancestor then Inr ([1], [previous], 0)
      else if previous = current then Inr ([1], [previous], 0)
      else Inr ([0xFF], [current], 1))"
  "isIn_pass null_value' (Vector [ancestor]) [current] [0xFF] [previous] 0 0 0 =
     (if current = null_value' then Inr ([0], [previous], 0)
      else if current = ancestor then Inr ([1], [previous], 0)
      else if previous = current then Inr ([1], [previous], 0)
      else Inr ([0xFF], [current], 1))"
  by (simp_all add: isIn_pass.simps)





lemma example_toParent_any_state:
  "toParent example_hierarchy_collaborators example_hierarchy st [k] = (Inr [example_parent k], st)"
  by (simp add: toParent_def example_hierarchy_def example_hierarchy_attribute_def
        example_hierarchy_collaborators_def pipeline_defs request_defs)





subsection \<open>Several children\<close>

lemma isIn_loop_pos:
  "0 < n \<Longrightarrow>
   isIn_loop to_parent null_value' ancestor_ids n out children parents w =
     (case isIn_pass null_value' ancestor_ids parents out children 0 0 0 of
        Inl e \<Rightarrow> (Inl e, w)
      | Inr (out', children', new_children_idx) \<Rightarrow>
          if new_children_idx = 0 then (Inr out', w)
          else
            (let children'' = take new_children_idx children'
             in case to_parent w children'' of
                  (Inl e, w') \<Rightarrow> (Inl e, w')
                | (Inr parents', w') \<Rightarrow>
                    isIn_loop to_parent null_value' ancestor_ids (n - 1) out' children''
                      parents' w'))"
proof -
  assume "0 < n"
  then obtain m where "n = Suc m" by (cases n) auto
  show ?thesis unfolding \<open>n = Suc m\<close>
    by (simp add: Let_def split: prod.splits sum.splits)
qed

lemma example_two_positions_passes:
  "isIn_pass 0 (Vector [99, 30]) [10, 20] [0xFF, 0xFF] [0, 0] 0 0 0
     = Inr ([0xFF, 0xFF], [10, 20], 2)"
  "isIn_pass 0 (Vector [99, 30]) [0, 21] [0xFF, 0xFF] [10, 20] 0 0 0
     = Inr ([0, 0xFF], [21, 20], 1)"
  "isIn_pass 0 (Vector [99, 30]) [30] [0, 0xFF] [21] 0 0 0 = Inr ([0, 0xFF], [30], 1)"
  "isIn_pass 0 (Vector [99, 30]) [0] [0, 0xFF] [30] 0 0 0 = Inr ([0, 0], [30], 0)"
  by (simp_all add: isIn_pass.simps)

lemma example_toParent_two:
  "toParent example_hierarchy_collaborators example_hierarchy st [10, 20] = (Inr [0, 21], st)"
  by (simp add: toParent_def example_hierarchy_def example_hierarchy_attribute_def
        example_hierarchy_collaborators_def pipeline_defs request_defs example_parent_def)

text \<open>
  With several children the loop reads \<^verbatim>\<open>ancestor_ids\<close> and \<^verbatim>\<open>children\<close> at the indexes of
  the compacted arrays, \<^verbatim>\<open>parents_idx\<close> and \<^verbatim>\<open>new_children_idx\<close>, which differ from the position
  once an earlier position is finished. In the example hierarchy 30 is an ancestor of 20,
  and the search for it from child 20 alone answers 1. Next to child 10, which is finished one
  pass earlier, the same search compares the parent 30 with 99, the ancestor queried for
  child 10, and answers 0.
\<close>

lemma isInVectorVector_single_position:
  "isInVectorVector example_hierarchy_collaborators example_hierarchy example_hierarchy_state
     [20] [30] [0] = (Inr [1], example_hierarchy_state)"
  by (simp add: isInVectorVector_def isInImpl_def example_hierarchy_members isIn_loop_pos
        isIn_pass_single example_toParent_any_state example_parent_def)

lemma isInVectorVector_compacted_index:
  "isInVectorVector example_hierarchy_collaborators example_hierarchy example_hierarchy_state
     [10, 20] [99, 30] [0, 0] = (Inr [0, 0], example_hierarchy_state)"
  by (simp add: isInVectorVector_def isInImpl_def example_hierarchy_members isIn_loop_pos
        example_two_positions_passes example_toParent_two example_toParent_any_state
        example_parent_def)

end
